theory Spec2Isabelle
  imports Complex_Main
begin

section \<open>Decimal text of integers\<close>

text \<open>
  The challenge text is built by the f-string \<^verbatim>\<open>f"{a} {op} {b}"\<close>, which formats
  the two integers with \<^verbatim>\<open>str\<close>, and the answer is obtained by \<^verbatim>\<open>eval\<close> of that
  text. Both directions are modelled on character lists.
\<close>

definition digit_char :: "nat \<Rightarrow> char" where
  "digit_char d = ''0123456789'' ! d"

text \<open>The value of a decimal digit, from its character code (\<open>0\<close> is 48, \<open>9\<close> is 57).\<close>

definition digit_val :: "char \<Rightarrow> nat option" where
  "digit_val c =
     (let code = (of_char c :: nat)
      in if 48 \<le> code \<and> code \<le> 57 then Some (code - 48) else None)"

text \<open>\<^verbatim>\<open>str(n)\<close> for a natural number: most significant digit first, no leading zero.\<close>

function str_nat :: "nat \<Rightarrow> string" where
  "str_nat n = (if n < 10 then [digit_char n] else str_nat (n div 10) @ [digit_char (n mod 10)])"
  by pat_completeness auto
termination
  by (relation "measure (\<lambda>n. n)") auto

declare str_nat.simps [simp del]

text \<open>\<^verbatim>\<open>str(i)\<close> for a Python int.\<close>

definition str_int :: "int \<Rightarrow> string" where
  "str_int i = (if i < 0 then CHR ''-'' # str_nat (nat (- i)) else str_nat (nat i))"

text \<open>The value of a digit string, read left to right; \<open>None\<close> on a character that is no digit.\<close>

fun digits_val :: "nat \<Rightarrow> string \<Rightarrow> nat option" where
  "digits_val acc [] = Some acc"
| "digits_val acc (c # cs) =
     (case digit_val c of None \<Rightarrow> None | Some d \<Rightarrow> digits_val (10 * acc + d) cs)"

text \<open>
  A decimal integer literal of Python source text: one or more digits, and no leading
  zero unless every digit is zero (\<^verbatim>\<open>eval("007")\<close> is a SyntaxError). Underscores inside
  literals are not part of the modelled fragment.
\<close>

definition int_literal :: "string \<Rightarrow> nat option" where
  "int_literal s =
     (if s = [] then None
      else if hd s = CHR ''0'' \<and> \<not> list_all (\<lambda>c. c = CHR ''0'') s then None
      else digits_val 0 s)"

text \<open>An operand: a literal, or a literal under one unary minus.\<close>

definition operand :: "string \<Rightarrow> int option" where
  "operand s =
     (case s of
        [] \<Rightarrow> None
      | c # cs \<Rightarrow>
          if c = CHR ''-'' then map_option (\<lambda>n. - int n) (int_literal cs)
          else map_option int (int_literal s))"

definition binop :: "string \<Rightarrow> (int \<Rightarrow> int \<Rightarrow> int) option" where
  "binop s = (if s = ''+'' then Some (\<lambda>x y. x + y)
              else if s = ''-'' then Some (\<lambda>x y. x - y) else None)"

text \<open>Splitting a text at every space, as \<^verbatim>\<open>s.split(" ")\<close> does.\<close>

fun split_sp :: "string \<Rightarrow> string list" where
  "split_sp [] = [[]]"
| "split_sp (c # cs) =
     (if c = CHR '' '' then [] # split_sp cs
      else (case split_sp cs of [] \<Rightarrow> [[c]] | w # ws \<Rightarrow> (c # w) # ws))"

text \<open>
  \<^verbatim>\<open>eval(expr)\<close> on the fragment of Python expressions that the challenge runner can
  build: \<^verbatim>\<open><operand> <op> <operand>\<close> with single spaces and \<open>op\<close> one of \<^verbatim>\<open>+\<close>
  and \<^verbatim>\<open>-\<close>. \<open>None\<close> stands for a text outside this fragment (where Python would raise
  or evaluate something else).
\<close>

definition py_eval :: "string \<Rightarrow> int option" where
  "py_eval s =
     (case split_sp s of
        [x, oper, y] \<Rightarrow>
          (case (operand x, binop oper, operand y) of
             (Some m, Some f, Some n) \<Rightarrow> Some (f m n)
           | _ \<Rightarrow> None)
      | _ \<Rightarrow> None)"

text \<open>The f-string \<^verbatim>\<open>f"{a} {op} {b}"\<close> (source line 106).\<close>

definition fmt_expr :: "int \<Rightarrow> string \<Rightarrow> int \<Rightarrow> string" where
  "fmt_expr a oper b = str_int a @ '' '' @ oper @ '' '' @ str_int b"

section \<open>The random draws\<close>

text \<open>
  The part of the standard library's \<^verbatim>\<open>random\<close> module that the runner calls.
  \<^verbatim>\<open>getrandbits(k)\<close> returns an integer \<open>r\<close> with \<open>0 \<le> r < 2 ^ k\<close>; the random
  source of a run is the list of the successive results of \<^verbatim>\<open>getrandbits\<close> that it
  receives.
\<close>

type_synonym random_source = "nat list"

text \<open>\<^verbatim>\<open>int.bit_length\<close> of a positive integer.\<close>

function bit_length :: "int \<Rightarrow> int" where
  "bit_length n = (if n \<le> 0 then 0 else 1 + bit_length (n div 2))"
  by pat_completeness auto
termination
  by (relation "measure nat") auto

declare bit_length.simps [simp del]

text \<open>
  The words that the calls \<^verbatim>\<open>getrandbits(n.bit_length())\<close> can return: every word is
  below \<open>2 ^ n.bit_length()\<close>.
\<close>

definition getrandbits_results :: "nat \<Rightarrow> random_source \<Rightarrow> bool" where
  "getrandbits_results n ws = list_all (\<lambda>r. r < 2 ^ nat (bit_length (int n))) ws"

text \<open>
  The outcome of a draw: the value drawn and the rest of the source; \<open>Raised\<close> where
  Python raises; \<open>Starved\<close> when the source ends before the draw has accepted a word,
  which stands for a draw that has not returned yet.
\<close>

datatype 'a draw = Drawn 'a random_source | Raised | Starved

text \<open>
  \<^verbatim>\<open>_randbelow_with_getrandbits(n)\<close>:
  \<^verbatim>\<open>k = n.bit_length(); r = getrandbits(k); while r >= n: r = getrandbits(k); return r\<close>.
\<close>

fun randbelow :: "nat \<Rightarrow> random_source \<Rightarrow> nat draw" where
  "randbelow n [] = Starved"
| "randbelow n (r # rs) = (if r \<ge> n then randbelow n rs else Drawn r rs)"

text \<open>
  \<^verbatim>\<open>randrange(start, stop)\<close> with step 1:
  \<^verbatim>\<open>width = stop - start; if width > 0: return start + self._randbelow(width)\<close>, and a
  ValueError for an empty range. \<^verbatim>\<open>randint(a, b)\<close> is \<^verbatim>\<open>randrange(a, b + 1)\<close>.
\<close>

definition randrange :: "int \<Rightarrow> int \<Rightarrow> random_source \<Rightarrow> int draw" where
  "randrange start stop src =
     (let width = stop - start in
      if width > 0 then
        (case randbelow (nat width) src of
           Drawn r rest \<Rightarrow> Drawn (start + int r) rest
         | Raised \<Rightarrow> Raised
         | Starved \<Rightarrow> Starved)
      else Raised)"

definition randint :: "int \<Rightarrow> int \<Rightarrow> random_source \<Rightarrow> int draw" where
  "randint a b src = randrange a (b + 1) src"

text \<open>
  \<^verbatim>\<open>choice(seq)\<close>: an IndexError for an empty sequence, else
  \<^verbatim>\<open>seq[self._randbelow(len(seq))]\<close>.
\<close>

definition choice :: "'a list \<Rightarrow> random_source \<Rightarrow> 'a draw" where
  "choice seq src =
     (if length seq = 0 then Raised
      else (case randbelow (length seq) src of
              Drawn r rest \<Rightarrow> Drawn (seq ! r) rest
            | Raised \<Rightarrow> Raised
            | Starved \<Rightarrow> Starved))"

text \<open>
  The three draws of the runner (source lines 103-105):
  \<^verbatim>\<open>a = random.randint(1, 20); b = random.randint(1, 20); op = random.choice(['+', '-'])\<close>.
\<close>

definition generate :: "random_source \<Rightarrow> (int \<times> string \<times> int) draw" where
  "generate src =
     (case randint 1 20 src of
        Raised \<Rightarrow> Raised
      | Starved \<Rightarrow> Starved
      | Drawn a src1 \<Rightarrow>
          (case randint 1 20 src1 of
             Raised \<Rightarrow> Raised
           | Starved \<Rightarrow> Starved
           | Drawn b src2 \<Rightarrow>
               (case choice [''+'', ''-''] src2 of
                  Raised \<Rightarrow> Raised
                | Starved \<Rightarrow> Starved
                | Drawn oper src3 \<Rightarrow> Drawn (a, oper, b) src3)))"

section \<open>Clock readings and the response time\<close>

text \<open>
  \<^verbatim>\<open>datetime.now()\<close> is a naive local wall-clock reading with a resolution of one
  microsecond; a reading is modelled as its count of microseconds. The difference of two
  readings is a \<^verbatim>\<open>timedelta\<close>, which Python keeps as an exact integer count of
  microseconds.
\<close>

type_synonym datetime = int

text \<open>The exponent \<open>e\<close> with \<open>2 ^ e \<le> x < 2 ^ (e + 1)\<close>, for a positive rational \<open>x\<close>.\<close>

definition binade :: "rat \<Rightarrow> int" where
  "binade x =
     (let (p, q) = quotient_of x;
          e = bit_length p - bit_length q
      in if 2 powi e \<le> x then e else e - 1)"

definition round_half_even :: "rat \<Rightarrow> int" where
  "round_half_even x =
     (let f = \<lfloor>x\<rfloor>; r = x - of_int f
      in if r < 1 / 2 then f else if 1 / 2 < r then f + 1
         else if even f then f else f + 1)"

text \<open>
  The value of the Python float (IEEE 754 binary64) nearest to a rational, ties to the
  even significand: 53 significant bits. The exponent is not bounded here; the values
  met below (quotients and products of at most \<open>3.2 * 10 ^ 17\<close> microseconds) are
  far from overflow and from the subnormal range.
\<close>

definition to_double :: "rat \<Rightarrow> rat" where
  "to_double x =
     (if x = 0 then 0
      else let u = 2 powi (binade \<bar>x\<bar> - 52)
           in sgn x * of_int (round_half_even (\<bar>x\<bar> / u)) * u)"

text \<open>
  \<^verbatim>\<open>timedelta.total_seconds()\<close>: the true division of the microsecond count by
  \<open>10 ^ 6\<close>, correctly rounded to a float.
\<close>

definition total_seconds :: "int \<Rightarrow> rat" where
  "total_seconds us = to_double (of_int us / 1000000)"

text \<open>Multiplication of two floats, rounded once.\<close>

definition float_mul :: "rat \<Rightarrow> rat \<Rightarrow> rat" where
  "float_mul x y = to_double (x * y)"

text \<open>\<^verbatim>\<open>int(x)\<close> of a float: truncation towards zero.\<close>

definition py_trunc :: "rat \<Rightarrow> int" where
  "py_trunc x = (if x < 0 then - \<lfloor>- x\<rfloor> else \<lfloor>x\<rfloor>)"

text \<open>
  Source line 121:
  \<^verbatim>\<open>response_time_ms = int((answer_time - creation_time).total_seconds() * 1000)\<close>.
\<close>

definition response_time_ms :: "datetime \<Rightarrow> datetime \<Rightarrow> int" where
  "response_time_ms creation_time answer_time =
     py_trunc (float_mul (total_seconds (answer_time - creation_time)) 1000)"

text \<open>The whole milliseconds of an exact microsecond count, truncated and rounded.\<close>

definition whole_ms_truncated :: "int \<Rightarrow> int" where
  "whole_ms_truncated us = py_trunc (of_int us / 1000)"

definition whole_ms_rounded :: "int \<Rightarrow> int" where
  "whole_ms_rounded us = round_half_even (of_int us / 1000)"

section \<open>Timestamps\<close>

text \<open>
  \<^verbatim>\<open>tick\<close> receives the current UNIX time as a Python float. \<open>Finite x\<close> is the float
  with value \<open>x\<close>; both zeros are \<open>Finite 0\<close>, which no comparison can tell apart.
\<close>

datatype pyfloat = Finite rat | PosInf | NegInf | NaN

text \<open>
  The float that an exact result is rounded to: the nearest float, and an infinity when
  the rounded magnitude reaches \<open>2 ^ 1024\<close>, that is, when its exponent is 1024 or more.
  A difference of two floats is a multiple of the smallest subnormal, so it is exact
  whenever it is below the normal range, and the unbounded exponent of \<open>to_double\<close> is
  no loss there.
\<close>

definition round_to_float :: "rat \<Rightarrow> pyfloat" where
  "round_to_float x =
     (let r = to_double x in
      if r = 0 then Finite 0
      else if 1024 \<le> binade \<bar>r\<bar> then (if 0 < r then PosInf else NegInf)
      else Finite r)"

text \<open>Float subtraction \<open>x - y\<close>.\<close>

fun float_sub :: "pyfloat \<Rightarrow> pyfloat \<Rightarrow> pyfloat" where
  "float_sub NaN y = NaN"
| "float_sub x NaN = NaN"
| "float_sub (Finite x) (Finite y) = round_to_float (x - y)"
| "float_sub (Finite x) PosInf = NegInf"
| "float_sub (Finite x) NegInf = PosInf"
| "float_sub PosInf PosInf = NaN"
| "float_sub PosInf y = PosInf"
| "float_sub NegInf NegInf = NaN"
| "float_sub NegInf y = NegInf"

text \<open>
  The comparison \<open>x >= n\<close> of a float with a Python int, which compares the two exact
  values; it is false for a NaN.
\<close>

fun float_ge_int :: "pyfloat \<Rightarrow> int \<Rightarrow> bool" where
  "float_ge_int (Finite x) n = (of_int n \<le> x)"
| "float_ge_int PosInf n = True"
| "float_ge_int NegInf n = False"
| "float_ge_int NaN n = False"

section \<open>The task object\<close>

text \<open>
  The attributes that \<^verbatim>\<open>CaptchaTask.__init__\<close> sets. \<open>loop_attr\<close> is the attribute
  \<^verbatim>\<open>_loop_attr\<close> behind the property \<^verbatim>\<open>_loop\<close>; event loops, futures and threads
  are referred to by handles.
\<close>

type_synonym handle = nat

record CaptchaTask =
  interval :: int
  info_timeout :: int
  last_challenge :: "pyfloat option"
  running :: bool
  loop_attr :: "handle option"
  task :: "handle option"
  captcha_thread :: "handle option"

definition init :: "int \<Rightarrow> int \<Rightarrow> CaptchaTask" where
  "init interval' info_timeout' =
     \<lparr>interval = interval', info_timeout = info_timeout', last_challenge = None,
      running = False, loop_attr = None, task = None, captcha_thread = None\<rparr>"

section \<open>One challenge run\<close>

text \<open>
  What the collaborators answer during one run of \<^verbatim>\<open>_captcha_challenge_coroutine\<close>:
  the random source, the two clock readings, the outcome of the \<^verbatim>\<open>zenity --entry\<close>
  process, the configured user, and whether \<^verbatim>\<open>EventStore._push\<close> raises.
\<close>

datatype proc_result = ProcRaised | ProcExit int string

record run_env =
  random_source :: random_source
  creation_clock :: datetime
  answer_clock :: datetime
  entry_proc :: proc_result
  tracker_user :: string
  push_raises :: bool

datatype pyval =
    PyNone | PyInt int | PyFloat pyfloat | PyBool bool | PyStr string | PyDatetime datetime
  | PyLoop handle | PyFuture handle | PyThread handle

type_synonym pydict = "(string \<times> pyval) list"

datatype dialog = MathDialog string | SuccessDialog int | ErrorDialog | InvalidInputDialog

text \<open>
  What a run does to the outside: it calls \<^verbatim>\<open>create_subprocess_exec\<close> for a dialog
  (whether or not the process then starts), it calls \<^verbatim>\<open>EventStore._push\<close> with a
  record, it prints \<^verbatim>\<open>Captcha challenge error: ...\<close>.
\<close>

datatype action = Zenity dialog | Push pydict | PrintError

text \<open>
  \<^verbatim>\<open>_show_math_dialog_async\<close> (lines 138-169). \<open>py_int\<close> stands for
  \<^verbatim>\<open>int(stdout.decode().strip())\<close>, with \<open>None\<close> where it raises ValueError (a
  UnicodeDecodeError is one). The result is the answer and the dialogs started.
\<close>

definition show_math_dialog_async ::
  "(string \<Rightarrow> int option) \<Rightarrow> proc_result \<Rightarrow> string \<Rightarrow> int option \<times> action list" where
  "show_math_dialog_async py_int proc expression =
     (case proc of
        ProcRaised \<Rightarrow> (None, [Zenity (MathDialog expression)])
      | ProcExit returncode stdout \<Rightarrow>
          if returncode \<noteq> 0 then (None, [Zenity (MathDialog expression)])
          else (case py_int stdout of
                  Some n \<Rightarrow> (Some n, [Zenity (MathDialog expression)])
                | None \<Rightarrow>
                    (None, [Zenity (MathDialog expression), Zenity InvalidInputDialog])))"

text \<open>\<^verbatim>\<open>_log_captcha_event\<close> (lines 198-228): the dictionary given to \<^verbatim>\<open>EventStore._push\<close>.\<close>

definition log_captcha_event ::
  "string \<Rightarrow> string \<Rightarrow> int \<Rightarrow> int \<Rightarrow> bool \<Rightarrow> datetime \<Rightarrow> datetime \<Rightarrow> int \<Rightarrow> pydict" where
  "log_captcha_event user expression user_answer correct_answer is_correct
       creation_time answer_time response_time_ms' =
     [(''username'', PyStr user),
      (''timestamp'', PyDatetime creation_time),
      (''event'', PyStr ''captcha_challenge''),
      (''expression'', PyStr expression),
      (''user_answer'', PyInt user_answer),
      (''correct_answer'', PyInt correct_answer),
      (''is_correct'', PyBool is_correct),
      (''creation_time'', PyDatetime creation_time),
      (''answer_time'', PyDatetime answer_time),
      (''response_time_ms'', PyInt response_time_ms')]"

text \<open>
  \<^verbatim>\<open>_captcha_challenge_coroutine\<close> (lines 99-136), as the list of its actions in order.
  An exception raised inside the \<^verbatim>\<open>try\<close> block ends the run with the printed error.
  A run whose draws have not returned has done nothing yet.
\<close>

definition captcha_challenge_coroutine ::
  "(string \<Rightarrow> int option) \<Rightarrow> CaptchaTask \<Rightarrow> run_env \<Rightarrow> action list" where
  "captcha_challenge_coroutine py_int self env =
     (case generate (random_source env) of
        Starved \<Rightarrow> []
      | Raised \<Rightarrow> [PrintError]
      | Drawn (a, oper, b) _ \<Rightarrow>
          (let expr = fmt_expr a oper b in
           case py_eval expr of
             None \<Rightarrow> [PrintError]
           | Some correct_answer \<Rightarrow>
               (let creation_time = creation_clock env;
                    (user_answer, shown) =
                      show_math_dialog_async py_int (entry_proc env) expr in
                case user_answer of
                  None \<Rightarrow> shown
                | Some answer \<Rightarrow>
                    (let answer_time = answer_clock env;
                         ms = response_time_ms creation_time answer_time;
                         is_correct = (answer = correct_answer);
                         logged = shown @ [Push (log_captcha_event (tracker_user env) expr
                                      answer correct_answer is_correct creation_time
                                      answer_time ms)]
                     in if push_raises env then logged @ [PrintError]
                        else if is_correct
                          then logged @ [Zenity (SuccessDialog (info_timeout self))]
                        else logged @ [Zenity ErrorDialog]))))"

text \<open>Reading a trace: the records handed to the event store, and the follow-up dialogs.\<close>

fun emitted :: "action list \<Rightarrow> pydict list" where
  "emitted [] = []"
| "emitted (Push r # acts) = r # emitted acts"
| "emitted (_ # acts) = emitted acts"

fun follow_ups :: "action list \<Rightarrow> dialog list" where
  "follow_ups [] = []"
| "follow_ups (Zenity (MathDialog _) # acts) = follow_ups acts"
| "follow_ups (Zenity d # acts) = d # follow_ups acts"
| "follow_ups (_ # acts) = follow_ups acts"

subsection \<open>Integer text on ASCII output\<close>

text \<open>
  \<^verbatim>\<open>int(stdout.decode().strip())\<close> for output that is ASCII: surrounding white space
  is dropped, one sign is allowed, and the digits may be separated by single underscores.
\<close>

definition is_space :: "char \<Rightarrow> bool" where
  "is_space c = (c \<in> set [CHR '' '', CHR 0x09, CHR 0x0A, CHR 0x0B, CHR 0x0C, CHR 0x0D,
                            CHR 0x1C, CHR 0x1D, CHR 0x1E, CHR 0x1F])"

definition strip :: "string \<Rightarrow> string" where
  "strip s = rev (dropWhile is_space (rev (dropWhile is_space s)))"

fun digits_us :: "nat \<Rightarrow> string \<Rightarrow> nat option" where
  "digits_us acc [] = None"
| "digits_us acc [c] = map_option (\<lambda>d. 10 * acc + d) (digit_val c)"
| "digits_us acc (c # u # cs) =
     (case digit_val c of
        None \<Rightarrow> None
      | Some d \<Rightarrow> if u = CHR ''_'' then digits_us (10 * acc + d) cs
                  else digits_us (10 * acc + d) (u # cs))"

definition ascii_int :: "string \<Rightarrow> int option" where
  "ascii_int s =
     (case strip s of
        [] \<Rightarrow> None
      | c # cs \<Rightarrow>
          if c = CHR ''-'' then map_option (\<lambda>n. - int n) (digits_us 0 cs)
          else if c = CHR ''+'' then map_option int (digits_us 0 cs)
          else map_option int (digits_us 0 (c # cs)))"

section \<open>The scheduler\<close>

text \<open>
  The interpreter-side objects that the task's handles refer to. A thread started by
  \<^verbatim>\<open>_run_captcha_challenge_async\<close> is first \<open>Spawned\<close>; once its body has created an
  event loop and entered \<^verbatim>\<open>run_until_complete\<close> it is \<open>Looping\<close> on that loop, and
  after the loop is closed it is \<open>Finished\<close>. A future returned by
  \<^verbatim>\<open>run_coroutine_threadsafe\<close> is \<open>Pending\<close> on its loop until its coroutine ends
  (\<open>Done\<close>) or it is cancelled; it is \<open>Orphaned\<close> when its loop was closed first, and
  then it never completes.
\<close>

datatype thread_phase = Spawned | Looping handle | Finished

datatype future_state = Pending handle | Done | Cancelled | Orphaned

record runtime =
  threads :: "thread_phase list"
  futures :: "future_state list"
  loops :: nat

definition no_runtime :: runtime where
  "no_runtime = \<lparr>threads = [], futures = [], loops = 0\<rparr>"

definition lookup :: "'a list \<Rightarrow> handle \<Rightarrow> 'a option" where
  "lookup xs h = (if h < length xs then Some (xs ! h) else None)"

text \<open>\<^verbatim>\<open>future.done()\<close>: true of a finished and of a cancelled future.\<close>

definition future_done :: "runtime \<Rightarrow> handle \<Rightarrow> bool" where
  "future_done rt f =
     (case lookup (futures rt) f of
        Some Done \<Rightarrow> True
      | Some Cancelled \<Rightarrow> True
      | _ \<Rightarrow> False)"

datatype launch = StartedThread handle | Scheduled handle | Suppressed

text \<open>
  \<^verbatim>\<open>_run_captcha_challenge_async\<close> (lines 75-97). With no loop it starts a daemon
  thread that will run the challenge; with a loop it schedules the challenge on that
  loop unless the future in \<^verbatim>\<open>_task\<close> is still not done.
\<close>

definition run_captcha_challenge_async ::
  "CaptchaTask \<Rightarrow> runtime \<Rightarrow> CaptchaTask \<times> runtime \<times> launch" where
  "run_captcha_challenge_async self rt =
     (case loop_attr self of
        None \<Rightarrow>
          (let th = length (threads rt) in
           (self\<lparr>captcha_thread := Some th\<rparr>,
            rt\<lparr>threads := threads rt @ [Spawned]\<rparr>,
            StartedThread th))
      | Some lp \<Rightarrow>
          if (case task self of None \<Rightarrow> True | Some f \<Rightarrow> future_done rt f) then
            (let f = length (futures rt) in
             (self\<lparr>task := Some f\<rparr>,
              rt\<lparr>futures := futures rt @ [Pending lp]\<rparr>,
              Scheduled f))
          else (self, rt, Suppressed))"

text \<open>
  \<^verbatim>\<open>tick\<close> (lines 63-73). The third component tells whether
  \<^verbatim>\<open>_run_captcha_challenge_async\<close> was called, and what it did.
\<close>

definition tick ::
  "CaptchaTask \<Rightarrow> runtime \<Rightarrow> pyfloat \<Rightarrow> CaptchaTask \<times> runtime \<times> launch option" where
  "tick self rt now =
     (if (case last_challenge self of
            None \<Rightarrow> True
          | Some last_challenge' \<Rightarrow>
              float_ge_int (float_sub now last_challenge') (interval self))
      then (case run_captcha_challenge_async (self\<lparr>last_challenge := Some now\<rparr>) rt of
              (self', rt', l) \<Rightarrow> (self', rt', Some l))
      else (self, rt, None))"

text \<open>\<^verbatim>\<open>start\<close> and \<^verbatim>\<open>stop\<close> (lines 230-241).\<close>

definition start :: "CaptchaTask \<Rightarrow> CaptchaTask" where
  "start self = self\<lparr>running := True\<rparr>"

definition cancel :: "runtime \<Rightarrow> handle \<Rightarrow> runtime" where
  "cancel rt f =
     (if f < length (futures rt) then rt\<lparr>futures := (futures rt)[f := Cancelled]\<rparr> else rt)"

definition stop :: "CaptchaTask \<Rightarrow> runtime \<Rightarrow> CaptchaTask \<times> runtime" where
  "stop self rt =
     (self\<lparr>running := False\<rparr>,
      case task self of
        None \<Rightarrow> rt
      | Some f \<Rightarrow> if future_done rt f then rt else cancel rt f)"

text \<open>
  The steps of the thread body \<^verbatim>\<open>run_async_captcha\<close> (lines 79-87), each taken as one
  step: entering (new loop, \<^verbatim>\<open>self._loop = loop\<close>, the challenge starts), and leaving
  after the challenge has ended (\<^verbatim>\<open>loop.close()\<close>, \<^verbatim>\<open>self._loop = None\<close>).
\<close>

definition thread_begins :: "handle \<Rightarrow> CaptchaTask \<Rightarrow> runtime \<Rightarrow> CaptchaTask \<times> runtime" where
  "thread_begins th self rt =
     (case lookup (threads rt) th of
        Some Spawned \<Rightarrow>
          (let lp = loops rt in
           (self\<lparr>loop_attr := Some lp\<rparr>,
            rt\<lparr>threads := (threads rt)[th := Looping lp], loops := lp + 1\<rparr>))
      | _ \<Rightarrow> (self, rt))"

definition thread_ends :: "handle \<Rightarrow> CaptchaTask \<Rightarrow> runtime \<Rightarrow> CaptchaTask \<times> runtime" where
  "thread_ends th self rt =
     (case lookup (threads rt) th of
        Some (Looping lp) \<Rightarrow>
          (self\<lparr>loop_attr := None\<rparr>,
           rt\<lparr>threads := (threads rt)[th := Finished],
              futures := map (\<lambda>s. if s = Pending lp then Orphaned else s) (futures rt)\<rparr>)
      | _ \<Rightarrow> (self, rt))"

text \<open>The challenge scheduled as future \<open>f\<close> ends.\<close>

definition task_ends :: "handle \<Rightarrow> runtime \<Rightarrow> runtime" where
  "task_ends f rt =
     (case lookup (futures rt) f of
        Some (Pending lp) \<Rightarrow> rt\<lparr>futures := (futures rt)[f := Done]\<rparr>
      | _ \<Rightarrow> rt)"

text \<open>
  The challenge instances in progress: one per thread inside \<^verbatim>\<open>run_until_complete\<close>,
  and one per future pending on a running loop.
\<close>

fun is_looping :: "thread_phase \<Rightarrow> bool" where
  "is_looping (Looping _) = True"
| "is_looping _ = False"

fun is_pending :: "future_state \<Rightarrow> bool" where
  "is_pending (Pending _) = True"
| "is_pending _ = False"

definition active_instances :: "runtime \<Rightarrow> nat" where
  "active_instances rt =
     length (filter is_looping (threads rt)) + length (filter is_pending (futures rt))"

section \<open>Serialization\<close>

text \<open>
  The instance dictionary \<^verbatim>\<open>self.__dict__\<close>, in the order in which \<^verbatim>\<open>__init__\<close>
  assigns the attributes; the assignment to the property \<^verbatim>\<open>_loop\<close> stores
  \<^verbatim>\<open>_loop_attr\<close>.
\<close>

definition opt_val :: "('a \<Rightarrow> pyval) \<Rightarrow> 'a option \<Rightarrow> pyval" where
  "opt_val f x = (case x of None \<Rightarrow> PyNone | Some v \<Rightarrow> f v)"

definition dict_of :: "CaptchaTask \<Rightarrow> pydict" where
  "dict_of self =
     [(''interval'', PyInt (interval self)),
      (''info_timeout'', PyInt (info_timeout self)),
      (''_last_challenge'', opt_val PyFloat (last_challenge self)),
      (''_running'', PyBool (running self)),
      (''_loop_attr'', opt_val PyLoop (loop_attr self)),
      (''_task'', opt_val PyFuture (task self)),
      (''_captcha_thread'', opt_val PyThread (captcha_thread self))]"

text \<open>\<^verbatim>\<open>d.pop(key, None)\<close>, as the dictionary that is left.\<close>

definition pop :: "string \<Rightarrow> pydict \<Rightarrow> pydict" where
  "pop key d = filter (\<lambda>kv. fst kv \<noteq> key) d"

text \<open>\<^verbatim>\<open>__getstate__\<close> (lines 243-250).\<close>

definition getstate :: "CaptchaTask \<Rightarrow> pydict" where
  "getstate self =
     (let state = dict_of self;
          state = pop ''_loop_attr'' state;
          state = pop ''_task'' state;
          state = pop ''_captcha_thread'' state
      in state)"

section \<open>Example runs\<close>

text \<open>
  Inputs for concrete runs. The random source holds the words 27 (rejected, not below
  20), 11 and 7 (the operands 12 and 8), 3 (rejected, not below 2) and 0 (the operator
  \<open>+\<close>): the user \<open>alice\<close> is shown \<open>12 + 8\<close> and submits \<open>20\<close> after 1.001 seconds.
  Variants of this run cancel the dialog, submit text that is no integer, meet a
  subtraction with a negative result, and see the wall clock set back by one second
  while the dialog is open.
\<close>

definition run_submitted :: run_env where
  "run_submitted =
     \<lparr>random_source = [27, 11, 7, 3, 0], creation_clock = 0, answer_clock = 1001000,
      entry_proc = ProcExit 0 (''20'' @ [CHR 0x0A]), tracker_user = ''alice'',
      push_raises = False\<rparr>"

definition run_cancelled :: run_env where
  "run_cancelled = run_submitted\<lparr>entry_proc := ProcExit 1 []\<rparr>"

definition run_invalid :: run_env where
  "run_invalid = run_submitted\<lparr>entry_proc := ProcExit 0 (''abc'' @ [CHR 0x0A])\<rparr>"

definition run_negative :: run_env where
  "run_negative =
     run_submitted\<lparr>random_source := [0, 19, 1],
                   entry_proc := ProcExit 0 (''-19'' @ [CHR 0x0A])\<rparr>"

definition run_clock_set_back :: run_env where
  "run_clock_set_back = run_submitted\<lparr>creation_clock := 1000000, answer_clock := 0\<rparr>"

text \<open>
  A scheduler with \<open>interval = 10\<close>: the first tick at time 0, the entry of the thread
  it starts, and two further ticks at times 10 and 20 while no challenge has ended.
\<close>

definition after_first_tick :: "CaptchaTask \<times> runtime \<times> launch option" where
  "after_first_tick = tick (init 10 3) no_runtime (Finite 0)"

definition after_thread_entry :: "CaptchaTask \<times> runtime" where
  "after_thread_entry = thread_begins 0 (fst after_first_tick) (fst (snd after_first_tick))"

definition after_second_tick :: "CaptchaTask \<times> runtime \<times> launch option" where
  "after_second_tick = tick (fst after_thread_entry) (snd after_thread_entry) (Finite 10)"

definition after_third_tick :: "CaptchaTask \<times> runtime \<times> launch option" where
  "after_third_tick =
     tick (fst after_second_tick) (fst (snd after_second_tick)) (Finite 20)"

section \<open>Formatting and evaluating the expression\<close>

lemma lt10_cases:
  "d < (10::nat) \<Longrightarrow> d = 0 \<or> d = 1 \<or> d = 2 \<or> d = 3 \<or> d = 4 \<or> d = 5 \<or> d = 6 \<or> d = 7 \<or> d = 8 \<or> d = 9"
  by arith

lemma digit_val_digit_char: "d < 10 \<Longrightarrow> digit_val (digit_char d) = Some d"
  using lt10_cases [of d] by (auto simp: digit_char_def digit_val_def)

lemma digit_char_not_space: "d < 10 \<Longrightarrow> digit_char d \<noteq> CHR '' ''"
  using lt10_cases [of d] by (auto simp: digit_char_def)

lemma digit_char_not_minus: "d < 10 \<Longrightarrow> digit_char d \<noteq> CHR ''-''"
  using lt10_cases [of d] by (auto simp: digit_char_def)

lemma digit_char_zero_iff: "d < 10 \<Longrightarrow> digit_char d = CHR ''0'' \<longleftrightarrow> d = 0"
  using lt10_cases [of d] by (auto simp: digit_char_def)

lemma digits_val_append:
  "digits_val acc (xs @ ys) =
     (case digits_val acc xs of None \<Rightarrow> None | Some v \<Rightarrow> digits_val v ys)"
  by (induction xs arbitrary: acc) (auto split: option.splits)

lemma str_nat_not_Nil: "str_nat n \<noteq> []"
  by (subst str_nat.simps) simp

lemma str_nat_0: "str_nat 0 = ''0''"
  by (subst str_nat.simps) (simp add: digit_char_def)

lemma digits_val_str_nat: "digits_val 0 (str_nat n) = Some n"
proof (induction n rule: str_nat.induct)
  case (1 n)
  show ?case
  proof (cases "n < 10")
    case True
    then show ?thesis by (subst str_nat.simps) (simp add: digit_val_digit_char)
  next
    case False
    with 1 have "digits_val 0 (str_nat (n div 10)) = Some (n div 10)" by simp
    with False show ?thesis
      by (subst str_nat.simps) (simp add: digits_val_append digit_val_digit_char)
  qed
qed

lemma hd_str_nat: "hd (str_nat n) = CHR ''0'' \<longleftrightarrow> n = 0"
proof (induction n rule: str_nat.induct)
  case (1 n)
  show ?case
  proof (cases "n < 10")
    case True
    then show ?thesis by (subst str_nat.simps) (simp add: digit_char_zero_iff)
  next
    case False
    with 1 have "hd (str_nat (n div 10)) = CHR ''0'' \<longleftrightarrow> n div 10 = 0" by simp
    with False show ?thesis
      by (subst str_nat.simps) (simp add: str_nat_not_Nil)
  qed
qed

lemma hd_str_nat_not_minus: "hd (str_nat n) \<noteq> CHR ''-''"
proof (induction n rule: str_nat.induct)
  case (1 n)
  show ?case
  proof (cases "n < 10")
    case True
    then show ?thesis by (subst str_nat.simps) (simp add: digit_char_not_minus)
  next
    case False
    with 1 have "hd (str_nat (n div 10)) \<noteq> CHR ''-''" by simp
    with False show ?thesis
      by (subst str_nat.simps) (simp add: str_nat_not_Nil)
  qed
qed

lemma str_nat_no_space: "CHR '' '' \<notin> set (str_nat n)"
proof (induction n rule: str_nat.induct)
  case (1 n)
  show ?case
  proof (cases "n < 10")
    case True
    then show ?thesis using digit_char_not_space [of n] by (subst str_nat.simps) auto
  next
    case False
    with 1 have "CHR '' '' \<notin> set (str_nat (n div 10))" by simp
    with False show ?thesis
      using digit_char_not_space [of "n mod 10"] by (subst str_nat.simps) auto
  qed
qed

lemma int_literal_str_nat: "int_literal (str_nat n) = Some n"
proof (cases "n = 0")
  case True
  then show ?thesis by (simp add: int_literal_def str_nat_0 digit_val_def)
next
  case False
  then have "hd (str_nat n) \<noteq> CHR ''0''" by (simp add: hd_str_nat)
  then show ?thesis
    by (simp add: int_literal_def str_nat_not_Nil digits_val_str_nat)
qed

lemma operand_str_int: "operand (str_int i) = Some i"
proof (cases "i < 0")
  case True
  then show ?thesis by (simp add: operand_def str_int_def int_literal_str_nat)
next
  case False
  obtain c cs where s: "str_nat (nat i) = c # cs"
    using str_nat_not_Nil [of "nat i"] by (cases "str_nat (nat i)") auto
  with hd_str_nat_not_minus [of "nat i"] have "c \<noteq> CHR ''-''" by simp
  with False s show ?thesis
    using int_literal_str_nat [of "nat i"] by (simp add: operand_def str_int_def)
qed

lemma str_int_no_space: "CHR '' '' \<notin> set (str_int i)"
  by (simp add: str_int_def str_nat_no_space)

lemma split_sp_no_space: "CHR '' '' \<notin> set u \<Longrightarrow> split_sp u = [u]"
  by (induction u) (auto split: list.splits)

lemma split_sp_append:
  "CHR '' '' \<notin> set u \<Longrightarrow> split_sp (u @ CHR '' '' # v) = u # split_sp v"
  by (induction u) (auto split: list.splits)

lemma py_eval_fmt_expr:
  assumes "CHR '' '' \<notin> set oper"
  shows "py_eval (fmt_expr a oper b) =
           (case binop oper of None \<Rightarrow> None | Some f \<Rightarrow> Some (f a b))"
proof -
  have "split_sp (fmt_expr a oper b) = [str_int a, oper, str_int b]"
    using assms
    by (simp add: fmt_expr_def split_sp_append split_sp_no_space str_int_no_space)
  then show ?thesis
    by (simp add: py_eval_def operand_str_int split: option.splits)
qed

lemma py_eval_plus: "py_eval (fmt_expr a ''+'' b) = Some (a + b)"
  by (simp add: py_eval_fmt_expr binop_def)

lemma py_eval_minus: "py_eval (fmt_expr a ''-'' b) = Some (a - b)"
  by (simp add: py_eval_fmt_expr binop_def)

section \<open>What the draws return\<close>

lemma randbelow_Drawn_iff:
  "randbelow n ws = Drawn v rest \<longleftrightarrow>
     (\<exists>rs. ws = rs @ v # rest \<and> (\<forall>r \<in> set rs. n \<le> r) \<and> v < n)"
proof (induction ws)
  case Nil
  then show ?case by simp
next
  case (Cons w ws)
  show ?case
  proof (cases "n \<le> w")
    case True
    have "(\<exists>rs. w # ws = rs @ v # rest \<and> (\<forall>r \<in> set rs. n \<le> r) \<and> v < n) \<longleftrightarrow>
          (\<exists>rs. ws = rs @ v # rest \<and> (\<forall>r \<in> set rs. n \<le> r) \<and> v < n)"
    proof
      assume "\<exists>rs. w # ws = rs @ v # rest \<and> (\<forall>r \<in> set rs. n \<le> r) \<and> v < n"
      then obtain rs where rs: "w # ws = rs @ v # rest" "\<forall>r \<in> set rs. n \<le> r" "v < n"
        by blast
      with True obtain rs' where "rs = w # rs'"
        by (cases rs) auto
      with rs show "\<exists>rs. ws = rs @ v # rest \<and> (\<forall>r \<in> set rs. n \<le> r) \<and> v < n"
        by auto
    next
      assume "\<exists>rs. ws = rs @ v # rest \<and> (\<forall>r \<in> set rs. n \<le> r) \<and> v < n"
      then obtain rs where "ws = rs @ v # rest" "\<forall>r \<in> set rs. n \<le> r" "v < n"
        by blast
      with True have "w # ws = (w # rs) @ v # rest \<and> (\<forall>r \<in> set (w # rs). n \<le> r) \<and> v < n"
        by simp
      then show "\<exists>rs. w # ws = rs @ v # rest \<and> (\<forall>r \<in> set rs. n \<le> r) \<and> v < n"
        by blast
    qed
    with True Cons show ?thesis by simp
  next
    case False
    have "(\<exists>rs. w # ws = rs @ v # rest \<and> (\<forall>r \<in> set rs. n \<le> r) \<and> v < n) \<longleftrightarrow>
          (w = v \<and> ws = rest)"
    proof
      assume "\<exists>rs. w # ws = rs @ v # rest \<and> (\<forall>r \<in> set rs. n \<le> r) \<and> v < n"
      then obtain rs where rs: "w # ws = rs @ v # rest" "\<forall>r \<in> set rs. n \<le> r"
        by blast
      with False have "rs = []"
        by (cases rs) auto
      with rs show "w = v \<and> ws = rest" by simp
    next
      assume "w = v \<and> ws = rest"
      with False have "w # ws = [] @ v # rest \<and> (\<forall>r \<in> set []. n \<le> r) \<and> v < n"
        by simp
      then show "\<exists>rs. w # ws = rs @ v # rest \<and> (\<forall>r \<in> set rs. n \<le> r) \<and> v < n"
        by blast
    qed
    with False show ?thesis by auto
  qed
qed

lemma randbelow_not_Raised: "randbelow n ws \<noteq> Raised"
  by (induction ws) auto

lemma randbelow_less: "randbelow n ws = Drawn v rest \<Longrightarrow> v < n"
  by (auto simp: randbelow_Drawn_iff)

text \<open>
  Of the sequences of \<open>j + 1\<close> words below \<open>2 ^ k\<close>, those on which the draw rejects
  \<open>j\<close> words and returns \<open>v\<close> with the last one are equally many for every \<open>v < n\<close>.
\<close>

lemma card_randbelow:
  assumes "v < n" and "n \<le> 2 ^ k"
  shows "card {ws. length ws = Suc j \<and> list_all (\<lambda>r. r < 2 ^ k) ws \<and>
                   randbelow n ws = Drawn v []} = (2 ^ k - n) ^ j"
proof -
  let ?R = "{rs. set rs \<subseteq> {n..<2 ^ k} \<and> length rs = j}"
  have "{ws. length ws = Suc j \<and> list_all (\<lambda>r. r < 2 ^ k) ws \<and>
             randbelow n ws = Drawn v []} = (\<lambda>rs. rs @ [v]) ` ?R"
  proof (intro set_eqI iffI)
    fix ws
    assume "ws \<in> {ws. length ws = Suc j \<and> list_all (\<lambda>r. r < 2 ^ k) ws \<and>
                       randbelow n ws = Drawn v []}"
    then have len: "length ws = Suc j" and low: "\<forall>r \<in> set ws. r < 2 ^ k"
      and dr: "randbelow n ws = Drawn v []"
      by (simp_all add: list_all_iff)
    from dr obtain rs where rs: "ws = rs @ [v]" "\<forall>r \<in> set rs. n \<le> r"
      by (auto simp: randbelow_Drawn_iff)
    with len low have "rs \<in> ?R" by auto
    with rs show "ws \<in> (\<lambda>rs. rs @ [v]) ` ?R" by blast
  next
    fix ws
    assume "ws \<in> (\<lambda>rs. rs @ [v]) ` ?R"
    then obtain rs where rs: "ws = rs @ [v]" "set rs \<subseteq> {n..<2 ^ k}" "length rs = j"
      by blast
    then have "\<forall>r \<in> set rs. n \<le> r" by auto
    with rs assms have "randbelow n ws = Drawn v []"
      by (auto simp: randbelow_Drawn_iff)
    moreover from rs assms have "list_all (\<lambda>r. r < 2 ^ k) ws"
      by (auto simp: list_all_iff)
    ultimately show "ws \<in> {ws. length ws = Suc j \<and> list_all (\<lambda>r. r < 2 ^ k) ws \<and>
                                randbelow n ws = Drawn v []}"
      using rs by simp
  qed
  moreover have "inj_on (\<lambda>rs. rs @ [v]) ?R"
    by (simp add: inj_on_def)
  moreover have "card ?R = (2 ^ k - n) ^ j"
    using card_lists_length_eq [of "{n..<2 ^ k}" j] by simp
  ultimately show ?thesis
    by (simp add: card_image)
qed

lemma bit_length_20: "nat (bit_length 20) = 5"
  by code_simp

lemma bit_length_2: "nat (bit_length 2) = 2"
  by code_simp

lemma randint_1_20:
  "randint 1 20 src =
     (case randbelow 20 src of
        Drawn r rest \<Rightarrow> Drawn (1 + int r) rest
      | Raised \<Rightarrow> Raised
      | Starved \<Rightarrow> Starved)"
  by (simp add: randint_def randrange_def)

lemma choice_operators:
  "choice [''+'', ''-''] src =
     (case randbelow 2 src of
        Drawn r rest \<Rightarrow> Drawn ([''+'', ''-''] ! r) rest
      | Raised \<Rightarrow> Raised
      | Starved \<Rightarrow> Starved)"
  by (simp add: choice_def numeral_2_eq_2)

lemma randint_1_20_Drawn_iff:
  "randint 1 20 src = Drawn v rest \<longleftrightarrow>
     1 \<le> v \<and> v \<le> 20 \<and> randbelow 20 src = Drawn (nat (v - 1)) rest"
proof (cases "randbelow 20 src")
  case (Drawn r rest')
  then have "r < 20" by (rule randbelow_less)
  with Drawn show ?thesis
    by (auto simp: randint_1_20)
qed (simp_all add: randint_1_20)

lemma choice_operators_Drawn_iff:
  "choice [''+'', ''-''] src = Drawn oper rest \<longleftrightarrow>
     (oper = ''+'' \<and> randbelow 2 src = Drawn 0 rest) \<or>
     (oper = ''-'' \<and> randbelow 2 src = Drawn 1 rest)"
proof (cases "randbelow 2 src")
  case (Drawn r rest')
  then have "r < 2" by (rule randbelow_less)
  then have "r = 0 \<or> r = 1" by arith
  with Drawn show ?thesis
    by (auto simp: choice_operators)
qed (simp_all add: choice_operators)

lemma generate_Drawn_iff:
  "generate src = Drawn (a, oper, b) rest \<longleftrightarrow>
     (\<exists>src1 src2. randint 1 20 src = Drawn a src1 \<and> randint 1 20 src1 = Drawn b src2 \<and>
        choice [''+'', ''-''] src2 = Drawn oper rest)"
  by (auto simp: generate_def split: draw.splits)

lemma generate_not_Raised: "generate src \<noteq> Raised"
  by (auto simp: generate_def randint_1_20 choice_operators randbelow_not_Raised
      split: draw.splits)

lemma generate_range:
  assumes "generate src = Drawn (a, oper, b) rest"
  shows "1 \<le> a" and "a \<le> 20" and "1 \<le> b" and "b \<le> 20" and "oper = ''+'' \<or> oper = ''-''"
  using assms
  by (auto simp: generate_Drawn_iff randint_1_20_Drawn_iff choice_operators_Drawn_iff)

lemma py_eval_generate:
  assumes "generate src = Drawn (a, oper, b) rest"
  shows "py_eval (fmt_expr a oper b) = Some (if oper = ''+'' then a + b else a - b)"
  using generate_range(5) [OF assms] by (auto simp: py_eval_plus py_eval_minus)

lemma generate_answer_range:
  assumes "generate src = Drawn (a, oper, b) rest"
  shows "- 19 \<le> (if oper = ''+'' then a + b else a - b)"
    and "(if oper = ''+'' then a + b else a - b) \<le> 40"
  using generate_range [OF assms] by auto

lemma card_randint_1_20:
  assumes "1 \<le> v" and "v \<le> 20"
  shows "card {ws. length ws = Suc j \<and> getrandbits_results 20 ws \<and>
                   randint 1 20 ws = Drawn v []} = 12 ^ j"
proof -
  from assms have "nat (v - 1) < 20" by simp
  from card_randbelow [OF this, of 5 j] assms show ?thesis
    by (simp add: getrandbits_results_def bit_length_20 randint_1_20_Drawn_iff)
qed

lemma card_choice_operators:
  assumes "oper = ''+'' \<or> oper = ''-''"
  shows "card {ws. length ws = Suc j \<and> getrandbits_results 2 ws \<and>
                   choice [''+'', ''-''] ws = Drawn oper []} = 2 ^ j"
proof -
  have 0: "card {ws. length ws = Suc j \<and> list_all (\<lambda>r. r < 2 ^ 2) ws \<and>
                   randbelow 2 ws = Drawn 0 []} = 2 ^ j"
    using card_randbelow [of 0 2 2 j] by simp
  have 1: "card {ws. length ws = Suc j \<and> list_all (\<lambda>r. r < 2 ^ 2) ws \<and>
                   randbelow 2 ws = Drawn 1 []} = 2 ^ j"
    using card_randbelow [of 1 2 2 j] by simp
  from assms show ?thesis
  proof
    assume "oper = ''+''"
    with 0 show ?thesis
      by (simp add: getrandbits_results_def bit_length_2 choice_operators_Drawn_iff)
  next
    assume "oper = ''-''"
    with 1 show ?thesis
      by (simp add: getrandbits_results_def bit_length_2 choice_operators_Drawn_iff)
  qed
qed

section \<open>The trace of a challenge run\<close>

text \<open>The whole trace of a run, by the answers of the collaborators.\<close>

lemma coroutine_trace:
  "captcha_challenge_coroutine py_int self env =
     (case generate (random_source env) of
        Starved \<Rightarrow> []
      | Raised \<Rightarrow> [PrintError]
      | Drawn (a, oper, b) _ \<Rightarrow>
          (let expr = fmt_expr a oper b in
           case py_eval expr of
             None \<Rightarrow> [PrintError]
           | Some c \<Rightarrow>
               (case entry_proc env of
                  ProcRaised \<Rightarrow> [Zenity (MathDialog expr)]
                | ProcExit returncode out \<Rightarrow>
                    if returncode \<noteq> 0 then [Zenity (MathDialog expr)]
                    else (case py_int out of
                            None \<Rightarrow> [Zenity (MathDialog expr), Zenity InvalidInputDialog]
                          | Some n \<Rightarrow>
                              [Zenity (MathDialog expr),
                               Push (log_captcha_event (tracker_user env) expr n c (n = c)
                                 (creation_clock env) (answer_clock env)
                                 (response_time_ms (creation_clock env) (answer_clock env))),
                               if push_raises env then PrintError
                               else if n = c then Zenity (SuccessDialog (info_timeout self))
                               else Zenity ErrorDialog]))))"
  by (simp add: captcha_challenge_coroutine_def show_math_dialog_async_def Let_def
      split: draw.splits option.splits proc_result.splits prod.splits)

text \<open>The trace of a run whose draws have returned \<open>a\<close>, \<open>oper\<close> and \<open>b\<close>.\<close>

lemma coroutine_trace_Drawn:
  assumes "generate (random_source env) = Drawn (a, oper, b) rest"
  shows "captcha_challenge_coroutine py_int self env =
     (let expr = fmt_expr a oper b; c = (if oper = ''+'' then a + b else a - b) in
      case entry_proc env of
        ProcRaised \<Rightarrow> [Zenity (MathDialog expr)]
      | ProcExit returncode out \<Rightarrow>
          if returncode \<noteq> 0 then [Zenity (MathDialog expr)]
          else (case py_int out of
                  None \<Rightarrow> [Zenity (MathDialog expr), Zenity InvalidInputDialog]
                | Some n \<Rightarrow>
                    [Zenity (MathDialog expr),
                     Push (log_captcha_event (tracker_user env) expr n c (n = c)
                       (creation_clock env) (answer_clock env)
                       (response_time_ms (creation_clock env) (answer_clock env))),
                     if push_raises env then PrintError
                     else if n = c then Zenity (SuccessDialog (info_timeout self))
                     else Zenity ErrorDialog]))"
  using assms py_eval_generate [OF assms] by (simp add: coroutine_trace Let_def)

lemma coroutine_trace_not_Drawn:
  assumes "\<And>a oper b rest. generate (random_source env) \<noteq> Drawn (a, oper, b) rest"
  shows "captcha_challenge_coroutine py_int self env = []"
  using assms generate_not_Raised [of "random_source env"]
  by (cases "generate (random_source env)") (auto simp: coroutine_trace)

lemma emitted_coroutine_Drawn:
  assumes "generate (random_source env) = Drawn (a, oper, b) rest"
  shows "emitted (captcha_challenge_coroutine py_int self env) =
     (case entry_proc env of
        ProcRaised \<Rightarrow> []
      | ProcExit returncode out \<Rightarrow>
          if returncode \<noteq> 0 then []
          else (case py_int out of
                  None \<Rightarrow> []
                | Some n \<Rightarrow>
                    [log_captcha_event (tracker_user env) (fmt_expr a oper b) n
                       (if oper = ''+'' then a + b else a - b)
                       (n = (if oper = ''+'' then a + b else a - b))
                       (creation_clock env) (answer_clock env)
                       (response_time_ms (creation_clock env) (answer_clock env))]))"
  by (simp add: coroutine_trace_Drawn [OF assms] Let_def split: option.splits proc_result.splits)

lemma follow_ups_coroutine_Drawn:
  assumes "generate (random_source env) = Drawn (a, oper, b) rest"
  shows "follow_ups (captcha_challenge_coroutine py_int self env) =
     (case entry_proc env of
        ProcRaised \<Rightarrow> []
      | ProcExit returncode out \<Rightarrow>
          if returncode \<noteq> 0 then []
          else (case py_int out of
                  None \<Rightarrow> [InvalidInputDialog]
                | Some n \<Rightarrow>
                    if push_raises env then []
                    else if n = (if oper = ''+'' then a + b else a - b)
                      then [SuccessDialog (info_timeout self)]
                    else [ErrorDialog]))"
  by (simp add: coroutine_trace_Drawn [OF assms] Let_def split: option.splits proc_result.splits)

lemma trace_run_submitted:
  "captcha_challenge_coroutine ascii_int (init 10 3) run_submitted =
     [Zenity (MathDialog ''12 + 8''),
      Push (log_captcha_event ''alice'' ''12 + 8'' 20 20 True 0 1001000 1000),
      Zenity (SuccessDialog 3)]"
  by code_simp

lemma trace_run_cancelled:
  "captcha_challenge_coroutine ascii_int (init 10 3) run_cancelled =
     [Zenity (MathDialog ''12 + 8'')]"
  by code_simp

lemma trace_run_invalid:
  "captcha_challenge_coroutine ascii_int (init 10 3) run_invalid =
     [Zenity (MathDialog ''12 + 8''), Zenity InvalidInputDialog]"
  by code_simp

lemma trace_run_negative:
  "captcha_challenge_coroutine ascii_int (init 10 3) run_negative =
     [Zenity (MathDialog ''1 - 20''),
      Push (log_captcha_event ''alice'' ''1 - 20'' (- 19) (- 19) True 0 1001000 1000),
      Zenity (SuccessDialog 3)]"
  by code_simp

lemma trace_run_clock_set_back:
  "captcha_challenge_coroutine ascii_int (init 10 3) run_clock_set_back =
     [Zenity (MathDialog ''12 + 8''),
      Push (log_captcha_event ''alice'' ''12 + 8'' 20 20 True 1000000 0 (- 1000)),
      Zenity (SuccessDialog 3)]"
  by code_simp

lemma round_half_even_nonneg: "0 \<le> x \<Longrightarrow> 0 \<le> round_half_even x"
  by (simp add: round_half_even_def Let_def)

lemma to_double_nonneg: "0 \<le> x \<Longrightarrow> 0 \<le> to_double x"
  by (simp add: to_double_def Let_def round_half_even_nonneg)

lemma response_time_ms_nonneg:
  assumes "creation_time \<le> answer_time"
  shows "0 \<le> response_time_ms creation_time answer_time"
proof -
  from assms have "0 \<le> to_double (of_int (answer_time - creation_time) / 1000000)"
    by (intro to_double_nonneg) simp
  then have "0 \<le> to_double (to_double (of_int (answer_time - creation_time) / 1000000) * 1000)"
    by (intro to_double_nonneg) simp
  then show ?thesis
    by (simp add: response_time_ms_def py_trunc_def float_mul_def total_seconds_def)
qed

lemma emitted_coroutineE:
  assumes "r \<in> set (emitted (captcha_challenge_coroutine py_int self env))"
  obtains a oper b rest out n where "generate (random_source env) = Drawn (a, oper, b) rest"
    and "entry_proc env = ProcExit 0 out" and "py_int out = Some n"
    and "py_eval (fmt_expr a oper b) = Some (if oper = ''+'' then a + b else a - b)"
    and "r = log_captcha_event (tracker_user env) (fmt_expr a oper b) n
               (if oper = ''+'' then a + b else a - b)
               (n = (if oper = ''+'' then a + b else a - b))
               (creation_clock env) (answer_clock env)
               (response_time_ms (creation_clock env) (answer_clock env))"
proof (cases "\<exists>a oper b rest. generate (random_source env) = Drawn (a, oper, b) rest")
  case False
  then have "captcha_challenge_coroutine py_int self env = []"
    by (intro coroutine_trace_not_Drawn) blast
  with assms show ?thesis by simp
next
  case True
  then obtain a oper b rest where g: "generate (random_source env) = Drawn (a, oper, b) rest"
    by blast
  note em = emitted_coroutine_Drawn [OF g, of py_int self]
  show ?thesis
  proof (cases "entry_proc env")
    case ProcRaised
    with assms show ?thesis by (simp add: em)
  next
    case (ProcExit returncode out)
    note pr = this
    show ?thesis
    proof (cases "returncode = 0")
      case False
      with assms pr show ?thesis by (simp add: em)
    next
      case True
      note rc = this
      show ?thesis
      proof (cases "py_int out")
        case None
        with assms pr rc show ?thesis by (simp add: em)
      next
        case (Some n)
        with assms pr rc have "r = log_captcha_event (tracker_user env) (fmt_expr a oper b) n
               (if oper = ''+'' then a + b else a - b)
               (n = (if oper = ''+'' then a + b else a - b))
               (creation_clock env) (answer_clock env)
               (response_time_ms (creation_clock env) (answer_clock env))"
          by (simp add: em)
        with that [of a oper b rest out n] g pr rc Some py_eval_generate [OF g]
        show ?thesis by simp
      qed
    qed
  qed
qed

lemma log_captcha_event_keys:
  "map fst (log_captcha_event u e n c b ct ans ms) =
     [''username'', ''timestamp'', ''event'', ''expression'', ''user_answer'',
      ''correct_answer'', ''is_correct'', ''creation_time'', ''answer_time'',
      ''response_time_ms'']"
  by (simp add: log_captcha_event_def)

lemma log_captcha_event_fields:
  "map_of (log_captcha_event u e n c b ct ans ms) ''username'' = Some (PyStr u)"
  "map_of (log_captcha_event u e n c b ct ans ms) ''timestamp'' = Some (PyDatetime ct)"
  "map_of (log_captcha_event u e n c b ct ans ms) ''event'' = Some (PyStr ''captcha_challenge'')"
  "map_of (log_captcha_event u e n c b ct ans ms) ''expression'' = Some (PyStr e)"
  "map_of (log_captcha_event u e n c b ct ans ms) ''user_answer'' = Some (PyInt n)"
  "map_of (log_captcha_event u e n c b ct ans ms) ''correct_answer'' = Some (PyInt c)"
  "map_of (log_captcha_event u e n c b ct ans ms) ''is_correct'' = Some (PyBool b)"
  "map_of (log_captcha_event u e n c b ct ans ms) ''creation_time'' = Some (PyDatetime ct)"
  "map_of (log_captcha_event u e n c b ct ans ms) ''answer_time'' = Some (PyDatetime ans)"
  "map_of (log_captcha_event u e n c b ct ans ms) ''response_time_ms'' = Some (PyInt ms)"
  by (simp_all add: log_captcha_event_def)

lemma generate_run_submitted:
  "generate (random_source run_submitted) = Drawn (12, ''+'', 8) []"
  by code_simp

lemma generate_run_negative:
  "generate (random_source run_negative) = Drawn (1, ''-'', 20) []"
  by code_simp

lemma generate_run_invalid:
  "generate (random_source run_invalid) = Drawn (12, ''+'', 8) []"
  by code_simp

section \<open>Cancellation, invalid input and the emitted record\<close>

text \<open>
  Claim C2. When the entry dialog ends with a non-zero exit status, the run hands no
  record to the event store and starts no follow-up dialog (success, warning or
  invalid input). Every record that a run does hand over carries the integer that the
  user submitted: the dialog exited with status 0 and its output parsed to that integer.
\<close>

theorem cancellation_emits_nothing:
  "(\<forall>returncode out.
      entry_proc env = ProcExit returncode out \<and> returncode \<noteq> 0 \<longrightarrow>
      emitted (captcha_challenge_coroutine py_int self env) = [] \<and>
      follow_ups (captcha_challenge_coroutine py_int self env) = []) \<and>
   (\<forall>r \<in> set (emitted (captcha_challenge_coroutine py_int self env)).
      \<exists>out n. entry_proc env = ProcExit 0 out \<and> py_int out = Some n \<and>
        map_of r ''user_answer'' = Some (PyInt n))"
proof (intro conjI allI impI ballI)
  fix returncode out
  assume c: "entry_proc env = ProcExit returncode out \<and> returncode \<noteq> 0"
  have "emitted (captcha_challenge_coroutine py_int self env) = [] \<and>
        follow_ups (captcha_challenge_coroutine py_int self env) = []"
  proof (cases "\<exists>a oper b rest. generate (random_source env) = Drawn (a, oper, b) rest")
    case True
    then obtain a oper b rest where g: "generate (random_source env) = Drawn (a, oper, b) rest"
      by blast
    from c show ?thesis
      by (simp add: emitted_coroutine_Drawn [OF g] follow_ups_coroutine_Drawn [OF g])
  next
    case False
    then have "captcha_challenge_coroutine py_int self env = []"
      by (intro coroutine_trace_not_Drawn) blast
    then show ?thesis by simp
  qed
  then show "emitted (captcha_challenge_coroutine py_int self env) = []"
    and "follow_ups (captcha_challenge_coroutine py_int self env) = []"
    by simp_all
next
  fix r
  assume "r \<in> set (emitted (captcha_challenge_coroutine py_int self env))"
  then obtain a oper b out n where "entry_proc env = ProcExit 0 out" and "py_int out = Some n"
    and "r = log_captcha_event (tracker_user env) (fmt_expr a oper b) n
               (if oper = ''+'' then a + b else a - b)
               (n = (if oper = ''+'' then a + b else a - b))
               (creation_clock env) (answer_clock env)
               (response_time_ms (creation_clock env) (answer_clock env))"
    by (rule emitted_coroutineE)
  then show "\<exists>out n. entry_proc env = ProcExit 0 out \<and> py_int out = Some n \<and>
        map_of r ''user_answer'' = Some (PyInt n)"
    by (simp add: log_captcha_event_fields)
qed

theorem cancellation_emits_nothing_witness:
  "entry_proc run_cancelled = ProcExit 1 [] \<and>
   emitted (captcha_challenge_coroutine ascii_int (init 10 3) run_cancelled) = [] \<and>
   follow_ups (captcha_challenge_coroutine ascii_int (init 10 3) run_cancelled) = [] \<and>
   emitted (captcha_challenge_coroutine ascii_int (init 10 3) run_submitted) =
     [log_captcha_event ''alice'' ''12 + 8'' 20 20 True 0 1001000 1000] \<and>
   entry_proc run_submitted = ProcExit 0 (''20'' @ [CHR 0x0A]) \<and>
   ascii_int (''20'' @ [CHR 0x0A]) = Some 20 \<and>
   map_of (log_captcha_event ''alice'' ''12 + 8'' 20 20 True 0 1001000 1000) ''user_answer'' =
     Some (PyInt 20)"
proof -
  have c: "entry_proc run_cancelled = ProcExit 1 []"
    by (simp add: run_cancelled_def)
  have s: "entry_proc run_submitted = ProcExit 0 (''20'' @ [CHR 0x0A])"
    by (simp add: run_submitted_def)
  have p: "ascii_int (''20'' @ [CHR 0x0A]) = Some 20"
    by code_simp
  have e: "emitted (captcha_challenge_coroutine ascii_int (init 10 3) run_submitted) =
     [log_captcha_event ''alice'' ''12 + 8'' 20 20 True 0 1001000 1000]"
    by (simp add: trace_run_submitted)
  from cancellation_emits_nothing [of run_cancelled ascii_int "init 10 3"] c
  have 1: "emitted (captcha_challenge_coroutine ascii_int (init 10 3) run_cancelled) = [] \<and>
      follow_ups (captcha_challenge_coroutine ascii_int (init 10 3) run_cancelled) = []"
    by simp
  from cancellation_emits_nothing [of run_submitted ascii_int "init 10 3"] e s p
  have 2: "map_of (log_captcha_event ''alice'' ''12 + 8'' 20 20 True 0 1001000 1000)
      ''user_answer'' = Some (PyInt 20)"
    by simp
  from c s p e 1 2 show ?thesis by simp
qed

text \<open>
  Claim C5. When the entry dialog returns (exit status 0) output that does not parse as
  an integer, the run consists of the challenge dialog and exactly one invalid-input
  dialog: no record is handed to the event store and no other follow-up dialog starts.
\<close>

theorem invalid_input_one_notice:
  assumes "generate (random_source env) = Drawn (a, oper, b) rest"
    and "entry_proc env = ProcExit 0 out" and "py_int out = None"
  shows "captcha_challenge_coroutine py_int self env =
           [Zenity (MathDialog (fmt_expr a oper b)), Zenity InvalidInputDialog] \<and>
         emitted (captcha_challenge_coroutine py_int self env) = [] \<and>
         follow_ups (captcha_challenge_coroutine py_int self env) = [InvalidInputDialog]"
  using assms(2,3) by (simp add: coroutine_trace_Drawn [OF assms(1)] Let_def)

theorem invalid_input_one_notice_witness:
  "generate (random_source run_invalid) = Drawn (12, ''+'', 8) [] \<and>
   entry_proc run_invalid = ProcExit 0 (''abc'' @ [CHR 0x0A]) \<and>
   ascii_int (''abc'' @ [CHR 0x0A]) = None \<and>
   captcha_challenge_coroutine ascii_int (init 10 3) run_invalid =
     [Zenity (MathDialog ''12 + 8''), Zenity InvalidInputDialog] \<and>
   emitted (captcha_challenge_coroutine ascii_int (init 10 3) run_invalid) = [] \<and>
   follow_ups (captcha_challenge_coroutine ascii_int (init 10 3) run_invalid) =
     [InvalidInputDialog]"
proof -
  note d = generate_run_invalid
  have e: "entry_proc run_invalid = ProcExit 0 (''abc'' @ [CHR 0x0A])"
    by (simp add: run_invalid_def)
  have p: "ascii_int (''abc'' @ [CHR 0x0A]) = None"
    by code_simp
  have f: "fmt_expr 12 ''+'' 8 = ''12 + 8''"
    by code_simp
  from invalid_input_one_notice
    [where env = run_invalid and py_int = ascii_int and self = "init 10 3", OF d e p]
    d e p f show ?thesis
    by simp
qed

text \<open>
  Claim C6. Every record handed to the event store has exactly the ten keys of
  \<^verbatim>\<open>_log_captcha_event\<close>: the user read from the configuration when the record is
  built, \<open>timestamp\<close> equal to the creation time, the tag \<open>captcha_challenge\<close>, and the
  seven fields of the event (expression, submitted answer, correct answer, their
  equality, creation time, answer time, response time).
\<close>

theorem emitted_record_fields:
  assumes "r \<in> set (emitted (captcha_challenge_coroutine py_int self env))"
  shows "map fst r =
           [''username'', ''timestamp'', ''event'', ''expression'', ''user_answer'',
            ''correct_answer'', ''is_correct'', ''creation_time'', ''answer_time'',
            ''response_time_ms''] \<and>
         map_of r ''username'' = Some (PyStr (tracker_user env)) \<and>
         map_of r ''timestamp'' = Some (PyDatetime (creation_clock env)) \<and>
         map_of r ''event'' = Some (PyStr ''captcha_challenge'') \<and>
         (\<exists>a oper b rest out n c.
            generate (random_source env) = Drawn (a, oper, b) rest \<and>
            map_of r ''expression'' = Some (PyStr (fmt_expr a oper b)) \<and>
            entry_proc env = ProcExit 0 out \<and> py_int out = Some n \<and>
            py_eval (fmt_expr a oper b) = Some c \<and>
            map_of r ''user_answer'' = Some (PyInt n) \<and>
            map_of r ''correct_answer'' = Some (PyInt c) \<and>
            map_of r ''is_correct'' = Some (PyBool (n = c))) \<and>
         map_of r ''creation_time'' = Some (PyDatetime (creation_clock env)) \<and>
         map_of r ''answer_time'' = Some (PyDatetime (answer_clock env)) \<and>
         map_of r ''response_time_ms'' =
           Some (PyInt (response_time_ms (creation_clock env) (answer_clock env)))"
proof -
  from assms obtain a oper b rest out n
    where "generate (random_source env) = Drawn (a, oper, b) rest"
    and "entry_proc env = ProcExit 0 out" and "py_int out = Some n"
    and "py_eval (fmt_expr a oper b) = Some (if oper = ''+'' then a + b else a - b)"
    and "r = log_captcha_event (tracker_user env) (fmt_expr a oper b) n
               (if oper = ''+'' then a + b else a - b)
               (n = (if oper = ''+'' then a + b else a - b))
               (creation_clock env) (answer_clock env)
               (response_time_ms (creation_clock env) (answer_clock env))"
    by (rule emitted_coroutineE)
  then show ?thesis
    by (simp add: log_captcha_event_fields log_captcha_event_keys)
qed

theorem emitted_record_fields_witness:
  "log_captcha_event ''alice'' ''12 + 8'' 20 20 True 0 1001000 1000
     \<in> set (emitted (captcha_challenge_coroutine ascii_int (init 10 3) run_submitted)) \<and>
   map fst (log_captcha_event ''alice'' ''12 + 8'' 20 20 True 0 1001000 1000) =
     [''username'', ''timestamp'', ''event'', ''expression'', ''user_answer'',
      ''correct_answer'', ''is_correct'', ''creation_time'', ''answer_time'',
      ''response_time_ms''] \<and>
   map_of (log_captcha_event ''alice'' ''12 + 8'' 20 20 True 0 1001000 1000) ''username'' =
     Some (PyStr (tracker_user run_submitted)) \<and>
   tracker_user run_submitted = ''alice'' \<and>
   map_of (log_captcha_event ''alice'' ''12 + 8'' 20 20 True 0 1001000 1000) ''event'' =
     Some (PyStr ''captcha_challenge'')"
proof -
  have m: "log_captcha_event ''alice'' ''12 + 8'' 20 20 True 0 1001000 1000
     \<in> set (emitted (captcha_challenge_coroutine ascii_int (init 10 3) run_submitted))"
    by (simp add: trace_run_submitted)
  have u: "tracker_user run_submitted = ''alice''"
    by (simp add: run_submitted_def)
  from emitted_record_fields [OF m] m u show ?thesis
    by simp
qed

text \<open>
  Claim C4, as amended. For every record handed to the event store,
  \<open>response_time_ms\<close> is the truncation to an integer of the float product of
  \<^verbatim>\<open>total_seconds()\<close> of the difference of the two clock readings and 1000, so it is
  derived from the two readings alone; it is not negative whenever the answer reading
  is not earlier than the creation reading.
\<close>

theorem response_time_from_clock_readings:
  assumes "r \<in> set (emitted (captcha_challenge_coroutine py_int self env))"
  shows "map_of r ''response_time_ms'' =
           Some (PyInt (py_trunc (float_mul
             (total_seconds (answer_clock env - creation_clock env)) 1000))) \<and>
         (creation_clock env \<le> answer_clock env \<longrightarrow>
            0 \<le> py_trunc (float_mul
                   (total_seconds (answer_clock env - creation_clock env)) 1000))"
proof -
  from assms have "map_of r ''response_time_ms'' =
      Some (PyInt (response_time_ms (creation_clock env) (answer_clock env)))"
    by (rule emitted_coroutineE) (simp add: log_captcha_event_fields)
  then show ?thesis
    using response_time_ms_nonneg [of "creation_clock env" "answer_clock env"]
    by (simp add: response_time_ms_def)
qed

theorem response_time_from_clock_readings_witness:
  "log_captcha_event ''alice'' ''12 + 8'' 20 20 True 0 1001000 1000
     \<in> set (emitted (captcha_challenge_coroutine ascii_int (init 10 3) run_submitted)) \<and>
   creation_clock run_submitted \<le> answer_clock run_submitted \<and>
   map_of (log_captcha_event ''alice'' ''12 + 8'' 20 20 True 0 1001000 1000)
     ''response_time_ms'' = Some (PyInt 1000) \<and>
   0 \<le> py_trunc (float_mul
          (total_seconds (answer_clock run_submitted - creation_clock run_submitted)) 1000)"
proof -
  have m: "log_captcha_event ''alice'' ''12 + 8'' 20 20 True 0 1001000 1000
     \<in> set (emitted (captcha_challenge_coroutine ascii_int (init 10 3) run_submitted))"
    by (simp add: trace_run_submitted)
  have c: "creation_clock run_submitted \<le> answer_clock run_submitted"
    by (simp add: run_submitted_def)
  have v: "map_of (log_captcha_event ''alice'' ''12 + 8'' 20 20 True 0 1001000 1000)
     ''response_time_ms'' = Some (PyInt 1000)"
    by (simp add: log_captcha_event_fields)
  from response_time_from_clock_readings [OF m] m c v show ?thesis
    by simp
qed

text \<open>
  Claim C4 as stated fails twice. When the wall clock is set back by one second while
  the dialog is open, the record carries \<open>response_time_ms = - 1000\<close>. When the two
  readings are 1.001 seconds apart, which is 1001 whole milliseconds truncated or
  rounded, the record carries 1000: the float nearest to 1.001 times 1000 is just
  below 1001.
\<close>

theorem response_time_counterexample:
  "emitted (captcha_challenge_coroutine ascii_int (init 10 3) run_clock_set_back) =
     [log_captcha_event ''alice'' ''12 + 8'' 20 20 True 1000000 0 (- 1000)] \<and>
   \<not> 0 \<le> response_time_ms (creation_clock run_clock_set_back) (answer_clock run_clock_set_back) \<and>
   emitted (captcha_challenge_coroutine ascii_int (init 10 3) run_submitted) =
     [log_captcha_event ''alice'' ''12 + 8'' 20 20 True 0 1001000 1000] \<and>
   answer_clock run_submitted - creation_clock run_submitted = 1001000 \<and>
   whole_ms_truncated 1001000 = 1001 \<and> whole_ms_rounded 1001000 = 1001"
proof -
  have 1: "response_time_ms (creation_clock run_clock_set_back)
      (answer_clock run_clock_set_back) = - 1000"
    by code_simp
  have 2: "answer_clock run_submitted - creation_clock run_submitted = 1001000"
    by (simp add: run_submitted_def)
  have 3: "whole_ms_truncated 1001000 = 1001"
    by (simp add: whole_ms_truncated_def py_trunc_def)
  have 4: "whole_ms_rounded 1001000 = 1001"
    by (simp add: whole_ms_rounded_def round_half_even_def)
  show ?thesis
    by (simp add: trace_run_submitted trace_run_clock_set_back 1 2 3 4)
qed

text \<open>
  Claim C10. The operands come from \<^verbatim>\<open>randint(1, 20)\<close> and the operator from
  \<^verbatim>\<open>choice(['+', '-'])\<close>, so the correct answer lies between \<open>- 19\<close> and 40, and it
  is the \<open>correct_answer\<close> of every record of the run. The answer can be negative: the
  run that draws \<open>1 - 20\<close> emits a record with \<open>correct_answer = - 19\<close>.
\<close>

theorem correct_answer_range:
  "(generate (random_source env) = Drawn (a, oper, b) rest \<longrightarrow>
      (\<exists>c. py_eval (fmt_expr a oper b) = Some c \<and> - 19 \<le> c \<and> c \<le> 40 \<and>
            (\<forall>r \<in> set (emitted (captcha_challenge_coroutine py_int self env)).
               map_of r ''correct_answer'' = Some (PyInt c)))) \<and>
   (\<forall>r \<in> set (emitted (captcha_challenge_coroutine py_int self env)).
      \<exists>c. map_of r ''correct_answer'' = Some (PyInt c) \<and> - 19 \<le> c \<and> c \<le> 40) \<and>
   generate (random_source run_negative) = Drawn (1, ''-'', 20) [] \<and>
   emitted (captcha_challenge_coroutine ascii_int (init 10 3) run_negative) =
     [log_captcha_event ''alice'' ''1 - 20'' (- 19) (- 19) True 0 1001000 1000]"
proof -
  have 1: "\<exists>c. py_eval (fmt_expr a oper b) = Some c \<and> - 19 \<le> c \<and> c \<le> 40 \<and>
            (\<forall>r \<in> set (emitted (captcha_challenge_coroutine py_int self env)).
               map_of r ''correct_answer'' = Some (PyInt c))"
    if g: "generate (random_source env) = Drawn (a, oper, b) rest"
  proof -
    let ?c = "if oper = ''+'' then a + b else a - b"
    have "\<forall>r \<in> set (emitted (captcha_challenge_coroutine py_int self env)).
            map_of r ''correct_answer'' = Some (PyInt ?c)"
      by (auto simp: emitted_coroutine_Drawn [OF g] log_captcha_event_fields
          split: proc_result.splits option.splits if_splits)
    with py_eval_generate [OF g] generate_answer_range [OF g] show ?thesis by blast
  qed
  have 2: "\<exists>c. map_of r ''correct_answer'' = Some (PyInt c) \<and> - 19 \<le> c \<and> c \<le> 40"
    if r: "r \<in> set (emitted (captcha_challenge_coroutine py_int self env))" for r
  proof -
    from r obtain a' oper' b' rest' out n
      where g: "generate (random_source env) = Drawn (a', oper', b') rest'"
      and "r = log_captcha_event (tracker_user env) (fmt_expr a' oper' b') n
               (if oper' = ''+'' then a' + b' else a' - b')
               (n = (if oper' = ''+'' then a' + b' else a' - b'))
               (creation_clock env) (answer_clock env)
               (response_time_ms (creation_clock env) (answer_clock env))"
      by (rule emitted_coroutineE)
    with generate_answer_range [OF g] show ?thesis
      by (simp add: log_captcha_event_fields)
  qed
  from 1 2 show ?thesis
    by (simp add: trace_run_negative generate_run_negative)
qed

theorem correct_answer_range_witness:
  "generate (random_source run_negative) = Drawn (1, ''-'', 20) [] \<and>
   py_eval (fmt_expr 1 ''-'' 20) = Some (- 19) \<and>
   log_captcha_event ''alice'' ''1 - 20'' (- 19) (- 19) True 0 1001000 1000
     \<in> set (emitted (captcha_challenge_coroutine ascii_int (init 10 3) run_negative)) \<and>
   map_of (log_captcha_event ''alice'' ''1 - 20'' (- 19) (- 19) True 0 1001000 1000)
     ''correct_answer'' = Some (PyInt (- 19))"
proof -
  have e: "py_eval (fmt_expr 1 ''-'' 20) = Some (- 19)"
    by code_simp
  from correct_answer_range
    [where env = run_negative and a = 1 and oper = "''-''" and b = 20 and rest = "[]"
       and py_int = ascii_int and self = "init 10 3"] e
  show ?thesis
    by (auto simp: log_captcha_event_fields)
qed

section \<open>The generated challenge\<close>

text \<open>
  Claim C3. The runner draws its operands with \<^verbatim>\<open>randint(1, 20)\<close> and its operator
  with \<^verbatim>\<open>choice(['+', '-'])\<close>: every generated challenge has operands in \<open>[1, 20]\<close>
  and the operator \<open>+\<close> or \<open>-\<close>, and the answer that \<^verbatim>\<open>eval\<close> computes from the
  expression text is the sum, respectively the difference, of the operands; this
  expression is the one shown in the dialog, and it and this answer are the ones of
  every record of the run. The draws are uniform: among the sequences of \<open>j + 1\<close> raw
  words that \<^verbatim>\<open>getrandbits\<close> can return, those on which a draw rejects \<open>j\<close> words and
  returns a given value are equally many for every value (\<open>12 ^ j\<close> for each of the 20
  operand values, \<open>2 ^ j\<close> for each of the two operators), so for uniformly distributed
  raw words each value is equally likely.
\<close>

theorem generated_challenge:
  "(generate src = Drawn (a, oper, b) rest \<longleftrightarrow>
      (\<exists>src1 src2. randint 1 20 src = Drawn a src1 \<and> randint 1 20 src1 = Drawn b src2 \<and>
         choice [''+'', ''-''] src2 = Drawn oper rest)) \<and>
   (generate src = Drawn (a, oper, b) rest \<longrightarrow>
      1 \<le> a \<and> a \<le> 20 \<and> 1 \<le> b \<and> b \<le> 20 \<and> (oper = ''+'' \<or> oper = ''-'') \<and>
      py_eval (fmt_expr a oper b) = Some (if oper = ''+'' then a + b else a - b)) \<and>
   (generate (random_source env) = Drawn (a, oper, b) rest \<longrightarrow>
      (\<exists>acts. captcha_challenge_coroutine py_int self env =
         Zenity (MathDialog (fmt_expr a oper b)) # acts) \<and>
      (\<forall>r \<in> set (emitted (captcha_challenge_coroutine py_int self env)).
         map_of r ''expression'' = Some (PyStr (fmt_expr a oper b)) \<and>
         map_of r ''correct_answer'' =
           Some (PyInt (if oper = ''+'' then a + b else a - b)))) \<and>
   (\<forall>r \<in> set (emitted (captcha_challenge_coroutine py_int self env)).
      \<exists>a' oper' b' rest'. generate (random_source env) = Drawn (a', oper', b') rest') \<and>
   (1 \<le> v \<and> v \<le> 20 \<longrightarrow>
      card {ws. length ws = Suc j \<and> getrandbits_results 20 ws \<and>
                randint 1 20 ws = Drawn v []} = 12 ^ j) \<and>
   (sign = ''+'' \<or> sign = ''-'' \<longrightarrow>
      card {ws. length ws = Suc j \<and> getrandbits_results 2 ws \<and>
                choice [''+'', ''-''] ws = Drawn sign []} = 2 ^ j)"
proof -
  have 1: "generate src = Drawn (a, oper, b) rest \<longleftrightarrow>
      (\<exists>src1 src2. randint 1 20 src = Drawn a src1 \<and> randint 1 20 src1 = Drawn b src2 \<and>
         choice [''+'', ''-''] src2 = Drawn oper rest)"
    by (rule generate_Drawn_iff)
  have 2: "generate src = Drawn (a, oper, b) rest \<longrightarrow>
      1 \<le> a \<and> a \<le> 20 \<and> 1 \<le> b \<and> b \<le> 20 \<and> (oper = ''+'' \<or> oper = ''-'') \<and>
      py_eval (fmt_expr a oper b) = Some (if oper = ''+'' then a + b else a - b)"
  proof
    assume g: "generate src = Drawn (a, oper, b) rest"
    from generate_range [OF g] py_eval_generate [OF g]
    show "1 \<le> a \<and> a \<le> 20 \<and> 1 \<le> b \<and> b \<le> 20 \<and> (oper = ''+'' \<or> oper = ''-'') \<and>
      py_eval (fmt_expr a oper b) = Some (if oper = ''+'' then a + b else a - b)"
      by simp
  qed
  have 3: "generate (random_source env) = Drawn (a, oper, b) rest \<longrightarrow>
      (\<exists>acts. captcha_challenge_coroutine py_int self env =
         Zenity (MathDialog (fmt_expr a oper b)) # acts) \<and>
      (\<forall>r \<in> set (emitted (captcha_challenge_coroutine py_int self env)).
         map_of r ''expression'' = Some (PyStr (fmt_expr a oper b)) \<and>
         map_of r ''correct_answer'' =
           Some (PyInt (if oper = ''+'' then a + b else a - b)))"
  proof (intro impI conjI ballI)
    assume g: "generate (random_source env) = Drawn (a, oper, b) rest"
    show "\<exists>acts. captcha_challenge_coroutine py_int self env =
         Zenity (MathDialog (fmt_expr a oper b)) # acts"
      by (simp add: coroutine_trace_Drawn [OF g] Let_def
          split: proc_result.splits option.splits)
  next
    fix r
    assume g: "generate (random_source env) = Drawn (a, oper, b) rest"
      and r: "r \<in> set (emitted (captcha_challenge_coroutine py_int self env))"
    from r obtain a' oper' b' rest' out n
      where g': "generate (random_source env) = Drawn (a', oper', b') rest'"
      and e: "r = log_captcha_event (tracker_user env) (fmt_expr a' oper' b') n
               (if oper' = ''+'' then a' + b' else a' - b')
               (n = (if oper' = ''+'' then a' + b' else a' - b'))
               (creation_clock env) (answer_clock env)
               (response_time_ms (creation_clock env) (answer_clock env))"
      by (rule emitted_coroutineE)
    from g g' have "a' = a" "oper' = oper" "b' = b" by simp_all
    with e show "map_of r ''expression'' = Some (PyStr (fmt_expr a oper b))"
      and "map_of r ''correct_answer'' =
           Some (PyInt (if oper = ''+'' then a + b else a - b))"
      by (simp_all add: log_captcha_event_fields)
  qed
  have 4: "\<forall>r \<in> set (emitted (captcha_challenge_coroutine py_int self env)).
      \<exists>a' oper' b' rest'. generate (random_source env) = Drawn (a', oper', b') rest'"
  proof
    fix r
    assume "r \<in> set (emitted (captcha_challenge_coroutine py_int self env))"
    then show "\<exists>a' oper' b' rest'. generate (random_source env) = Drawn (a', oper', b') rest'"
      by (rule emitted_coroutineE) blast
  qed
  have 5: "1 \<le> v \<and> v \<le> 20 \<longrightarrow>
      card {ws. length ws = Suc j \<and> getrandbits_results 20 ws \<and>
                randint 1 20 ws = Drawn v []} = 12 ^ j"
    by (simp add: card_randint_1_20)
  have 6: "sign = ''+'' \<or> sign = ''-'' \<longrightarrow>
      card {ws. length ws = Suc j \<and> getrandbits_results 2 ws \<and>
                choice [''+'', ''-''] ws = Drawn sign []} = 2 ^ j"
    using card_choice_operators [of sign j] by blast
  show ?thesis
    by (intro conjI) (fact 1, fact 2, fact 3, fact 4, fact 5, fact 6)
qed

theorem generated_challenge_witness:
  "generate [27, 11, 7, 3, 0] = Drawn (12, ''+'', 8) [] \<and>
   py_eval (fmt_expr 12 ''+'' 8) = Some 20 \<and>
   fmt_expr 12 ''+'' 8 = ''12 + 8'' \<and>
   random_source run_submitted = [27, 11, 7, 3, 0] \<and>
   log_captcha_event ''alice'' ''12 + 8'' 20 20 True 0 1001000 1000
     \<in> set (emitted (captcha_challenge_coroutine ascii_int (init 10 3) run_submitted)) \<and>
   map_of (log_captcha_event ''alice'' ''12 + 8'' 20 20 True 0 1001000 1000) ''expression'' =
     Some (PyStr ''12 + 8'') \<and>
   map_of (log_captcha_event ''alice'' ''12 + 8'' 20 20 True 0 1001000 1000)
     ''correct_answer'' = Some (PyInt 20) \<and>
   card {ws. length ws = Suc 1 \<and> getrandbits_results 20 ws \<and>
             randint 1 20 ws = Drawn 12 []} = 12 \<and>
   card {ws. length ws = Suc 1 \<and> getrandbits_results 2 ws \<and>
             choice [''+'', ''-''] ws = Drawn ''-'' []} = 2"
proof -
  have s: "random_source run_submitted = [27, 11, 7, 3, 0]"
    by (simp add: run_submitted_def)
  have g: "generate [27, 11, 7, 3, 0] = Drawn (12, ''+'', 8) []"
    using generate_run_submitted by (simp add: s)
  have f: "fmt_expr 12 ''+'' 8 = ''12 + 8''"
    by code_simp
  have m: "log_captcha_event ''alice'' ''12 + 8'' 20 20 True 0 1001000 1000
     \<in> set (emitted (captcha_challenge_coroutine ascii_int (init 10 3) run_submitted))"
    by (simp add: trace_run_submitted)
  have e: "py_eval (fmt_expr 12 ''+'' 8) = Some 20"
    by (simp add: py_eval_plus)
  note T = generated_challenge
    [where src = "[27, 11, 7, 3, 0]" and a = 12 and oper = "''+''" and b = 8 and rest = "[]"
       and env = run_submitted and py_int = ascii_int and self = "init 10 3"
       and v = 12 and j = 1 and sign = "''-''"]
  from T have c1: "card {ws. length ws = Suc 1 \<and> getrandbits_results 20 ws \<and>
             randint 1 20 ws = Drawn 12 []} = 12"
    by simp
  from T have c2: "card {ws. length ws = Suc 1 \<and> getrandbits_results 2 ws \<and>
             choice [''+'', ''-''] ws = Drawn ''-'' []} = 2"
    by simp
  from s g f m e c1 c2 show ?thesis
    by (simp add: log_captcha_event_fields)
qed

section \<open>The scheduler and serialization\<close>

lemma tick_due:
  assumes "last_challenge self = None \<or>
           (\<exists>t. last_challenge self = Some t \<and>
                float_ge_int (float_sub now t) (interval self))"
  shows "tick self rt now =
           (case run_captcha_challenge_async (self\<lparr>last_challenge := Some now\<rparr>) rt of
              (self', rt', l) \<Rightarrow> (self', rt', Some l))"
  using assms by (auto simp: tick_def)

lemma tick_not_due:
  assumes "\<not> (last_challenge self = None \<or>
           (\<exists>t. last_challenge self = Some t \<and>
                float_ge_int (float_sub now t) (interval self)))"
  shows "tick self rt now = (self, rt, None)"
  using assms by (cases "last_challenge self") (simp_all add: tick_def)

lemma last_challenge_run_captcha_challenge_async:
  "last_challenge (fst (run_captcha_challenge_async self rt)) = last_challenge self"
  by (simp add: run_captcha_challenge_async_def Let_def split: option.splits)

lemma run_captcha_challenge_async_no_loop:
  assumes "loop_attr self = None"
  shows "run_captcha_challenge_async self rt =
           (self\<lparr>captcha_thread := Some (length (threads rt))\<rparr>,
            rt\<lparr>threads := threads rt @ [Spawned]\<rparr>,
            StartedThread (length (threads rt)))"
  using assms by (simp add: run_captcha_challenge_async_def Let_def)

lemma run_captcha_challenge_async_free_loop:
  assumes "loop_attr self = Some lp"
    and "task self = None \<or> (\<exists>f. task self = Some f \<and> future_done rt f)"
  shows "run_captcha_challenge_async self rt =
           (self\<lparr>task := Some (length (futures rt))\<rparr>,
            rt\<lparr>futures := futures rt @ [Pending lp]\<rparr>,
            Scheduled (length (futures rt)))"
  using assms by (auto simp: run_captcha_challenge_async_def Let_def)

lemma suppressed_while_future_pending:
  assumes "loop_attr self = Some lp" and "task self = Some f" and "\<not> future_done rt f"
  shows "run_captcha_challenge_async self rt = (self, rt, Suppressed)"
  using assms by (simp add: run_captcha_challenge_async_def)

lemma after_second_tick_eq:
  "after_second_tick =
     (\<lparr>interval = 10, info_timeout = 3, last_challenge = Some (Finite 10), running = False,
       loop_attr = Some 0, task = Some 0, captcha_thread = Some 0\<rparr>,
      \<lparr>threads = [Looping 0], futures = [Pending 0], loops = 1\<rparr>,
      Some (Scheduled 0))"
  by code_simp

lemma after_third_tick_eq:
  "after_third_tick =
     (\<lparr>interval = 10, info_timeout = 3, last_challenge = Some (Finite 20), running = False,
       loop_attr = Some 0, task = Some 0, captcha_thread = Some 0\<rparr>,
      \<lparr>threads = [Looping 0], futures = [Pending 0], loops = 1\<rparr>,
      Some Suppressed)"
  by code_simp

lemma due_20_after_10: "float_ge_int (float_sub (Finite 20) (Finite 10)) 10"
  by code_simp

lemma due_10_after_tiny: "float_ge_int (float_sub (Finite 10) (Finite (to_double (1 / 10 ^ 20)))) 10"
  by code_simp

lemma due_10_after_0: "float_ge_int (float_sub (Finite 10) (Finite 0)) 10"
  by code_simp

lemma not_due_5_after_0: "\<not> float_ge_int (float_sub (Finite 5) (Finite 0)) 10"
  by code_simp

text \<open>
  Claim C1, as amended. \<^verbatim>\<open>tick(now)\<close> is due when \<^verbatim>\<open>_last_challenge\<close> is absent or
  the float difference \<open>now - _last_challenge\<close> is at least \<open>interval\<close>. Exactly when it
  is due it sets \<^verbatim>\<open>_last_challenge\<close> to \<open>now\<close> and calls
  \<^verbatim>\<open>_run_captcha_challenge_async\<close>; that call starts a new challenge instance, on a new
  thread when there is no event loop and as a new future on the loop otherwise, unless
  there is a loop and the future in \<^verbatim>\<open>_task\<close> is not done: then the trigger is
  suppressed and nothing is started, while \<^verbatim>\<open>_last_challenge\<close> is \<open>now\<close> all the same.
  When the tick is not due, the task is unchanged and nothing is started.
\<close>

theorem tick_starts_unless_suppressed:
  "(snd (snd (tick self rt now)) \<noteq> None \<longleftrightarrow>
      (last_challenge self = None \<or>
       (\<exists>t. last_challenge self = Some t \<and>
            float_ge_int (float_sub now t) (interval self)))) \<and>
   ((last_challenge self = None \<or>
       (\<exists>t. last_challenge self = Some t \<and>
            float_ge_int (float_sub now t) (interval self))) \<longrightarrow>
      last_challenge (fst (tick self rt now)) = Some now) \<and>
   (\<not> (last_challenge self = None \<or>
       (\<exists>t. last_challenge self = Some t \<and>
            float_ge_int (float_sub now t) (interval self))) \<longrightarrow>
      tick self rt now = (self, rt, None)) \<and>
   ((last_challenge self = None \<or>
       (\<exists>t. last_challenge self = Some t \<and>
            float_ge_int (float_sub now t) (interval self))) \<and> loop_attr self = None \<longrightarrow>
      tick self rt now =
        (self\<lparr>last_challenge := Some now, captcha_thread := Some (length (threads rt))\<rparr>,
         rt\<lparr>threads := threads rt @ [Spawned]\<rparr>,
         Some (StartedThread (length (threads rt))))) \<and>
   ((last_challenge self = None \<or>
       (\<exists>t. last_challenge self = Some t \<and>
            float_ge_int (float_sub now t) (interval self))) \<and> loop_attr self = Some lp \<and>
    (task self = None \<or> (\<exists>f. task self = Some f \<and> future_done rt f)) \<longrightarrow>
      tick self rt now =
        (self\<lparr>last_challenge := Some now, task := Some (length (futures rt))\<rparr>,
         rt\<lparr>futures := futures rt @ [Pending lp]\<rparr>,
         Some (Scheduled (length (futures rt))))) \<and>
   ((last_challenge self = None \<or>
       (\<exists>t. last_challenge self = Some t \<and>
            float_ge_int (float_sub now t) (interval self))) \<and> loop_attr self = Some lp \<and> task self = Some f \<and> \<not> future_done rt f \<longrightarrow>
      tick self rt now = (self\<lparr>last_challenge := Some now\<rparr>, rt, Some Suppressed))"
proof (cases "last_challenge self = None \<or>
       (\<exists>t. last_challenge self = Some t \<and>
            float_ge_int (float_sub now t) (interval self))")
  case False
  note t = tick_not_due [OF False, of rt]
  from False have nd: "(last_challenge self = None \<or>
       (\<exists>t. last_challenge self = Some t \<and>
            float_ge_int (float_sub now t) (interval self))) = False"
    by blast
  show ?thesis
    unfolding t nd by simp
next
  case True
  note due = tick_due [OF True, of rt]
  have 1: "snd (snd (tick self rt now)) \<noteq> None"
    unfolding due by (simp split: prod.splits)
  have 2: "last_challenge (fst (tick self rt now)) = Some now"
  proof -
    obtain self' rt' l where r:
      "run_captcha_challenge_async (self\<lparr>last_challenge := Some now\<rparr>) rt = (self', rt', l)"
      by (cases "run_captcha_challenge_async (self\<lparr>last_challenge := Some now\<rparr>) rt")
    from last_challenge_run_captcha_challenge_async
      [where self = "self\<lparr>last_challenge := Some now\<rparr>" and rt = rt] r
    have "last_challenge self' = Some now" by simp
    with r show ?thesis
      unfolding due by simp
  qed
  have 3: "tick self rt now =
        (self\<lparr>last_challenge := Some now, captcha_thread := Some (length (threads rt))\<rparr>,
         rt\<lparr>threads := threads rt @ [Spawned]\<rparr>,
         Some (StartedThread (length (threads rt))))" if "loop_attr self = None"
    unfolding due using that by (simp add: run_captcha_challenge_async_no_loop)
  have 4: "tick self rt now =
        (self\<lparr>last_challenge := Some now, task := Some (length (futures rt))\<rparr>,
         rt\<lparr>futures := futures rt @ [Pending lp]\<rparr>,
         Some (Scheduled (length (futures rt))))"
    if "loop_attr self = Some lp"
      and "task self = None \<or> (\<exists>f. task self = Some f \<and> future_done rt f)"
  proof -
    have "run_captcha_challenge_async (self\<lparr>last_challenge := Some now\<rparr>) rt =
        (self\<lparr>last_challenge := Some now, task := Some (length (futures rt))\<rparr>,
         rt\<lparr>futures := futures rt @ [Pending lp]\<rparr>,
         Scheduled (length (futures rt)))"
      using that by (intro run_captcha_challenge_async_free_loop) simp_all
    then show ?thesis
      unfolding due by simp
  qed
  have 5: "tick self rt now = (self\<lparr>last_challenge := Some now\<rparr>, rt, Some Suppressed)"
    if "loop_attr self = Some lp" and "task self = Some f" and "\<not> future_done rt f"
  proof -
    have "run_captcha_challenge_async (self\<lparr>last_challenge := Some now\<rparr>) rt =
        (self\<lparr>last_challenge := Some now\<rparr>, rt, Suppressed)"
      using that by (intro suppressed_while_future_pending [where lp = lp and f = f]) simp_all
    then show ?thesis
      unfolding due by simp
  qed
  from True have d: "(last_challenge self = None \<or>
       (\<exists>t. last_challenge self = Some t \<and>
            float_ge_int (float_sub now t) (interval self))) = True"
    by blast
  from 1 2 show ?thesis
    unfolding d by (simp add: 3 4 5)
qed

theorem tick_starts_unless_suppressed_witness:
  "tick (init 10 3) no_runtime (Finite 0) =
     ((init 10 3)\<lparr>last_challenge := Some (Finite 0), captcha_thread := Some 0\<rparr>,
      no_runtime\<lparr>threads := [Spawned]\<rparr>, Some (StartedThread 0)) \<and>
   tick ((init 10 3)\<lparr>last_challenge := Some (Finite 0)\<rparr>) no_runtime (Finite 5) =
     ((init 10 3)\<lparr>last_challenge := Some (Finite 0)\<rparr>, no_runtime, None) \<and>
   snd (snd (tick ((init 10 3)\<lparr>last_challenge := Some (Finite (to_double (1 / 10 ^ 20)))\<rparr>)
                  no_runtime (Finite 10))) \<noteq> None \<and>
   tick (fst after_thread_entry) (snd after_thread_entry) (Finite 10) =
     ((fst after_thread_entry)\<lparr>last_challenge := Some (Finite 10), task := Some 0\<rparr>,
      (snd after_thread_entry)\<lparr>futures := [Pending 0]\<rparr>, Some (Scheduled 0)) \<and>
   tick (fst after_second_tick) (fst (snd after_second_tick)) (Finite 20) =
     ((fst after_second_tick)\<lparr>last_challenge := Some (Finite 20)\<rparr>,
      fst (snd after_second_tick), Some Suppressed)"
proof -
  have e: "after_thread_entry =
     (\<lparr>interval = 10, info_timeout = 3, last_challenge = Some (Finite 0), running = False,
       loop_attr = Some 0, task = None, captcha_thread = Some 0\<rparr>,
      \<lparr>threads = [Looping 0], futures = [], loops = 1\<rparr>)"
    by code_simp
  have 1: "tick (init 10 3) no_runtime (Finite 0) =
     ((init 10 3)\<lparr>last_challenge := Some (Finite 0), captcha_thread := Some 0\<rparr>,
      no_runtime\<lparr>threads := [Spawned]\<rparr>, Some (StartedThread 0))"
    using tick_starts_unless_suppressed [of "init 10 3" no_runtime "Finite 0"]
    by (simp add: init_def no_runtime_def)
  have 2: "tick ((init 10 3)\<lparr>last_challenge := Some (Finite 0)\<rparr>) no_runtime (Finite 5) =
     ((init 10 3)\<lparr>last_challenge := Some (Finite 0)\<rparr>, no_runtime, None)"
    using tick_starts_unless_suppressed
      [of "(init 10 3)\<lparr>last_challenge := Some (Finite 0)\<rparr>" no_runtime "Finite 5"]
      not_due_5_after_0
    by (simp add: init_def)
  have 3: "snd (snd (tick
      ((init 10 3)\<lparr>last_challenge := Some (Finite (to_double (1 / 10 ^ 20)))\<rparr>)
      no_runtime (Finite 10))) \<noteq> None"
    using tick_starts_unless_suppressed
      [of "(init 10 3)\<lparr>last_challenge := Some (Finite (to_double (1 / 10 ^ 20)))\<rparr>"
        no_runtime "Finite 10"]
      due_10_after_tiny
    by (simp add: init_def)
  have 4: "tick (fst after_thread_entry) (snd after_thread_entry) (Finite 10) =
     ((fst after_thread_entry)\<lparr>last_challenge := Some (Finite 10), task := Some 0\<rparr>,
      (snd after_thread_entry)\<lparr>futures := [Pending 0]\<rparr>, Some (Scheduled 0))"
    using tick_starts_unless_suppressed
      [of "fst after_thread_entry" "snd after_thread_entry" "Finite 10" 0]
      due_10_after_0
    by (simp add: e)
  have 5: "tick (fst after_second_tick) (fst (snd after_second_tick)) (Finite 20) =
     ((fst after_second_tick)\<lparr>last_challenge := Some (Finite 20)\<rparr>,
      fst (snd after_second_tick), Some Suppressed)"
    using tick_starts_unless_suppressed
      [of "fst after_second_tick" "fst (snd after_second_tick)" "Finite 20" 0 0]
      due_20_after_10
    by (simp add: after_second_tick_eq future_done_def lookup_def)
  from 1 2 3 4 5 show ?thesis
    by (intro conjI)
qed

text \<open>
  Claim C1 as stated fails. After \<^verbatim>\<open>tick(0)\<close>, the entry of the thread and
  \<^verbatim>\<open>tick(10)\<close>, two challenges are open and \<^verbatim>\<open>_last_challenge\<close> is 10. The tick at
  time 20 is due, \<open>20 - 10 \<ge> 10\<close>, yet it starts no challenge instance: the launch is
  suppressed and the runtime is unchanged. It is no trigger of a new instance, and it
  still changes \<^verbatim>\<open>_last_challenge\<close> from 10 to 20.
\<close>

theorem tick_trigger_counterexample:
  "after_third_tick = tick (fst after_second_tick) (fst (snd after_second_tick)) (Finite 20) \<and>
   last_challenge (fst after_second_tick) = Some (Finite 10) \<and>
   interval (fst after_second_tick) = 10 \<and>
   float_ge_int (float_sub (Finite 20) (Finite 10)) 10 \<and>
   snd (snd after_third_tick) = Some Suppressed \<and>
   fst (snd after_third_tick) = fst (snd after_second_tick) \<and>
   active_instances (fst (snd after_third_tick)) =
     active_instances (fst (snd after_second_tick)) \<and>
   last_challenge (fst after_third_tick) = Some (Finite 20) \<and>
   Finite 20 \<noteq> Finite 10"
proof -
  have d: "after_third_tick =
      tick (fst after_second_tick) (fst (snd after_second_tick)) (Finite 20)"
    by (simp add: after_third_tick_def)
  have r: "last_challenge (fst after_second_tick) = Some (Finite 10) \<and>
   interval (fst after_second_tick) = 10 \<and>
   float_ge_int (float_sub (Finite 20) (Finite 10)) 10 \<and>
   snd (snd after_third_tick) = Some Suppressed \<and>
   fst (snd after_third_tick) = fst (snd after_second_tick) \<and>
   active_instances (fst (snd after_third_tick)) =
     active_instances (fst (snd after_second_tick)) \<and>
   last_challenge (fst after_third_tick) = Some (Finite 20) \<and>
   Finite 20 \<noteq> Finite 10"
    using due_20_after_10 by (simp add: after_second_tick_eq after_third_tick_eq)
  from d r show ?thesis
    by (rule conjI)
qed

lemma run_captcha_challenge_async_running:
  "run_captcha_challenge_async (self\<lparr>running := b\<rparr>) rt =
     (case run_captcha_challenge_async self rt of
        (self', rt', l) \<Rightarrow> (self'\<lparr>running := b\<rparr>, rt', l))"
  by (simp add: run_captcha_challenge_async_def Let_def split: option.splits)

lemma tick_init:
  "tick (init i t) no_runtime now =
     ((init i t)\<lparr>last_challenge := Some now, captcha_thread := Some 0\<rparr>,
      no_runtime\<lparr>threads := [Spawned]\<rparr>, Some (StartedThread 0))"
  by (simp add: tick_def run_captcha_challenge_async_def init_def no_runtime_def)

text \<open>
  Claim C9. \<^verbatim>\<open>tick\<close> does not read \<^verbatim>\<open>_running\<close>: on two tasks that differ only in
  that flag it takes the same trigger decision, makes the same changes to the runtime,
  and leaves tasks that again differ only in the flag. In particular a challenge is
  triggered on a task that was never started, and on one that was started and stopped.
\<close>

theorem tick_ignores_running:
  "tick (self\<lparr>running := b\<rparr>) rt now =
     (case tick self rt now of (self', rt', l) \<Rightarrow> (self'\<lparr>running := b\<rparr>, rt', l)) \<and>
   running (init 10 3) = False \<and>
   snd (snd (tick (init 10 3) no_runtime (Finite 0))) = Some (StartedThread 0) \<and>
   running (fst (stop (start (init 10 3)) no_runtime)) = False \<and>
   snd (snd (tick (fst (stop (start (init 10 3)) no_runtime))
                  (snd (stop (start (init 10 3)) no_runtime)) (Finite 0))) = Some (StartedThread 0)"
proof -
  have 1: "tick (self\<lparr>running := b\<rparr>) rt now =
     (case tick self rt now of (self', rt', l) \<Rightarrow> (self'\<lparr>running := b\<rparr>, rt', l))"
  proof (cases "last_challenge self = None \<or>
      (\<exists>t. last_challenge self = Some t \<and>
           float_ge_int (float_sub now t) (interval self))")
    case True
    then have "last_challenge (self\<lparr>running := b\<rparr>) = None \<or>
      (\<exists>t. last_challenge (self\<lparr>running := b\<rparr>) = Some t \<and>
           float_ge_int (float_sub now t) (interval (self\<lparr>running := b\<rparr>)))"
      by simp
    note due = tick_due [OF this]
    obtain self' rt' l where r:
      "run_captcha_challenge_async (self\<lparr>last_challenge := Some now\<rparr>) rt = (self', rt', l)"
      by (cases "run_captcha_challenge_async (self\<lparr>last_challenge := Some now\<rparr>) rt")
    have swap: "self\<lparr>running := b, last_challenge := Some now\<rparr> =
        self\<lparr>last_challenge := Some now, running := b\<rparr>"
      by simp
    have "run_captcha_challenge_async (self\<lparr>running := b, last_challenge := Some now\<rparr>) rt =
        (self'\<lparr>running := b\<rparr>, rt', l)"
      unfolding swap run_captcha_challenge_async_running by (simp add: r)
    then have "tick (self\<lparr>running := b\<rparr>) rt now = (self'\<lparr>running := b\<rparr>, rt', Some l)"
      unfolding due by simp
    moreover have "tick self rt now = (self', rt', Some l)"
      unfolding tick_due [OF True] by (simp add: r)
    ultimately show ?thesis by simp
  next
    case False
    then have "\<not> (last_challenge (self\<lparr>running := b\<rparr>) = None \<or>
      (\<exists>t. last_challenge (self\<lparr>running := b\<rparr>) = Some t \<and>
           float_ge_int (float_sub now t) (interval (self\<lparr>running := b\<rparr>))))"
      by simp
    from tick_not_due [OF this] tick_not_due [OF False] show ?thesis
      by simp
  qed
  have 2: "stop (start (init 10 3)) no_runtime = (init 10 3, no_runtime)"
    by (simp add: stop_def start_def init_def)
  show ?thesis
    using 1 by (simp add: 2 tick_init) (simp add: init_def)
qed

text \<open>
  Claim C7 fails on the code. With \<open>interval = 10\<close>: \<^verbatim>\<open>tick(0)\<close> starts the thread;
  the thread sets \<^verbatim>\<open>_loop\<close> and runs the first challenge under
  \<^verbatim>\<open>run_until_complete\<close>, which leaves \<^verbatim>\<open>_task\<close> at \<open>None\<close>; while that challenge
  is still open, \<^verbatim>\<open>tick(10)\<close> finds a loop and no future to wait for, and schedules a
  second challenge on the same running loop: two challenges are in progress at once.
  Only the third trigger, \<^verbatim>\<open>tick(20)\<close>, is suppressed by the pending future.
\<close>

theorem second_challenge_overlaps:
  "(case tick (init 10 3) no_runtime (Finite 0) of
      (self1, rt1, launch1) \<Rightarrow>
        (case thread_begins 0 self1 rt1 of
           (self2, rt2) \<Rightarrow>
             (case tick self2 rt2 (Finite 10) of
                (self3, rt3, launch3) \<Rightarrow>
                  launch1 = Some (StartedThread 0) \<and> active_instances rt1 = 0 \<and>
                  loop_attr self2 = Some 0 \<and> task self2 = None \<and>
                  active_instances rt2 = 1 \<and>
                  launch3 = Some (Scheduled 0) \<and> active_instances rt3 = 2 \<and>
                  snd (snd (tick self3 rt3 (Finite 20))) = Some Suppressed)))"
  by code_simp

text \<open>
  Claim C8. For every task, the dictionary returned by \<^verbatim>\<open>__getstate__\<close> has exactly
  the keys \<open>interval\<close>, \<open>info_timeout\<close>, \<open>_last_challenge\<close> and \<open>_running\<close>, with the
  values of the task; the loop, the future and the thread, which the instance
  dictionary holds under \<open>_loop_attr\<close>, \<open>_task\<close> and \<open>_captcha_thread\<close>, are absent
  from it.
\<close>

theorem getstate_fields:
  "map fst (getstate self) = [''interval'', ''info_timeout'', ''_last_challenge'', ''_running''] \<and>
   map_of (getstate self) ''interval'' = Some (PyInt (interval self)) \<and>
   map_of (getstate self) ''info_timeout'' = Some (PyInt (info_timeout self)) \<and>
   map_of (getstate self) ''_last_challenge'' = Some (opt_val PyFloat (last_challenge self)) \<and>
   map_of (getstate self) ''_running'' = Some (PyBool (running self)) \<and>
   map fst (dict_of self) =
     [''interval'', ''info_timeout'', ''_last_challenge'', ''_running'',
      ''_loop_attr'', ''_task'', ''_captcha_thread''] \<and>
   map_of (getstate self) ''_loop_attr'' = None \<and>
   map_of (getstate self) ''_task'' = None \<and>
   map_of (getstate self) ''_captcha_thread'' = None"
proof -
  have "getstate self =
     [(''interval'', PyInt (interval self)),
      (''info_timeout'', PyInt (info_timeout self)),
      (''_last_challenge'', opt_val PyFloat (last_challenge self)),
      (''_running'', PyBool (running self))]"
    by (simp add: getstate_def dict_of_def pop_def)
  then show ?thesis
    by (simp add: dict_of_def)
qed

end
